theory Spec2Isabelle
  imports Main "HOL-Library.Word" "HOL-Library.Multiset"
begin

section \<open>Strings as the browser and the store see them\<close>

text \<open>
  A TypeScript string is a sequence of UTF-16 code units; \<open>text.length\<close> counts code
  units. \<open>String.prototype.trim\<close> strips the ECMAScript WhiteSpace and LineTerminator
  code points from both ends; all of them lie in the basic plane, so each is one code unit.
\<close>

type_synonym code_unit = "16 word"
type_synonym js_string = "code_unit list"

definition is_white_space :: "code_unit \<Rightarrow> bool" where
  "is_white_space c =
     (c = 0x0009 \<or> c = 0x000A \<or> c = 0x000B \<or> c = 0x000C \<or> c = 0x000D \<or> c = 0x0020
      \<or> c = 0x00A0 \<or> c = 0x1680 \<or> (0x2000 \<le> c \<and> c \<le> 0x200A)
      \<or> c = 0x2028 \<or> c = 0x2029 \<or> c = 0x202F \<or> c = 0x205F \<or> c = 0x3000 \<or> c = 0xFEFF)"

definition trim :: "js_string \<Rightarrow> js_string" where
  "trim s = rev (dropWhile is_white_space (rev (dropWhile is_white_space s)))"

text \<open>
  PostgreSQL's \<open>LENGTH(text)\<close> counts characters: a surrogate pair of the browser's
  string is one character of the stored text, every other code unit is one.
\<close>

definition is_high_surrogate :: "code_unit \<Rightarrow> bool" where
  "is_high_surrogate c = (0xD800 \<le> c \<and> c \<le> 0xDBFF)"

definition is_low_surrogate :: "code_unit \<Rightarrow> bool" where
  "is_low_surrogate c = (0xDC00 \<le> c \<and> c \<le> 0xDFFF)"

fun pg_length :: "js_string \<Rightarrow> nat" where
  "pg_length [] = 0"
| "pg_length [c] = 1"
| "pg_length (h # l # cs) =
     (if is_high_surrogate h \<and> is_low_surrogate l then Suc (pg_length cs)
      else Suc (pg_length (l # cs)))"

text \<open>
  The store holds a text only if it is a sequence of characters it can encode: every high
  surrogate is followed by a low one, no low surrogate stands alone, and there is no NUL.
  The request body carries other code units as escapes, which the store refuses to turn
  into text when it builds the row.
\<close>

fun pg_storable :: "js_string \<Rightarrow> bool" where
  "pg_storable [] = True"
| "pg_storable [c] = (c \<noteq> 0 \<and> \<not> is_high_surrogate c \<and> \<not> is_low_surrogate c)"
| "pg_storable (h # l # cs) =
     (if is_high_surrogate h then is_low_surrogate l \<and> pg_storable cs
      else h \<noteq> 0 \<and> \<not> is_low_surrogate h \<and> pg_storable (l # cs))"

section \<open>The schema\<close>

type_synonym uuid = nat
type_synonym timestamptz = nat

datatype claim_type = Fact | Value | Policy
datatype stance_type = Supports | Contradicts
datatype reply_status = Pending | Accepted | Rejected

record claim =
  claim_id :: uuid
  claim_text :: js_string
  claim_type :: claim_type
  claim_author_id :: uuid
  claim_created_at :: timestamptz

record reply =
  reply_id :: uuid
  reply_parent_claim_id :: uuid
  reply_text :: js_string
  reply_stance :: stance_type
  reply_status :: reply_status
  reply_rejection_reason :: "js_string option"
  reply_author_id :: uuid
  reply_created_at :: timestamptz

record thread =
  thread_id :: uuid
  thread_reply_id :: uuid
  thread_claim_owner_id :: uuid
  thread_reply_author_id :: uuid
  thread_created_at :: timestamptz

record message =
  message_id :: uuid
  message_thread_id :: uuid
  message_sender_id :: uuid
  message_body :: js_string
  message_created_at :: timestamptz

text \<open>
  The tables, in insertion order. \<open>users\<close> is the key column of \<open>auth.users\<close>, the
  target of every \<open>author_id\<close>, \<open>sender_id\<close> and participant reference.
\<close>

record database =
  users :: "uuid list"
  claims :: "claim list"
  replies :: "reply list"
  threads :: "thread list"
  messages :: "message list"

text \<open>
  The caller of a request: \<open>None\<close> is the anonymous role (\<open>auth.uid()\<close> is NULL),
  \<open>Some u\<close> is the role \<open>authenticated\<close> with \<open>auth.uid() = u\<close>.
\<close>

type_synonym auth = "uuid option"

datatype pg_error =
  InvalidText | RlsViolation | CheckViolation | NotNullViolation | UniqueViolation
  | ForeignKeyViolation

section \<open>Row-level security policies\<close>

definition claims_insert_check :: "auth \<Rightarrow> claim \<Rightarrow> bool" where
  "claims_insert_check a c = (a \<noteq> None)"

definition claims_update_using :: "auth \<Rightarrow> claim \<Rightarrow> bool" where
  "claims_update_using a c = (a = Some (claim_author_id c))"

definition claims_delete_using :: "auth \<Rightarrow> claim \<Rightarrow> bool" where
  "claims_delete_using a c = (a = Some (claim_author_id c))"

definition replies_insert_check :: "auth \<Rightarrow> reply \<Rightarrow> bool" where
  "replies_insert_check a r = (a \<noteq> None)"

definition replies_update_using :: "database \<Rightarrow> auth \<Rightarrow> reply \<Rightarrow> bool" where
  "replies_update_using db a r =
     list_ex (\<lambda>c. claim_id c = reply_parent_claim_id r \<and> Some (claim_author_id c) = a)
       (claims db)"

definition threads_select_using :: "auth \<Rightarrow> thread \<Rightarrow> bool" where
  "threads_select_using a t =
     (a = Some (thread_claim_owner_id t) \<or> a = Some (thread_reply_author_id t))"

text \<open>
  The subquery of the two message policies reads \<open>threads\<close> as the caller, so the
  thread policy filters it too; that filter is the same disjunction as the subquery's own.
\<close>

definition messages_select_using :: "database \<Rightarrow> auth \<Rightarrow> message \<Rightarrow> bool" where
  "messages_select_using db a m =
     list_ex (\<lambda>t. thread_id t = message_thread_id m
                 \<and> (Some (thread_claim_owner_id t) = a \<or> Some (thread_reply_author_id t) = a))
       (filter (threads_select_using a) (threads db))"

definition messages_insert_check :: "database \<Rightarrow> auth \<Rightarrow> message \<Rightarrow> bool" where
  "messages_insert_check db a m =
     (messages_select_using db a m \<and> Some (message_sender_id m) = a)"

section \<open>Statements against the store\<close>

text \<open>
  A statement runs in its own transaction: it returns the new tables, or an error and the
  tables stay as they were. The row of an INSERT is built from the request body first, which
  fails on a text the store cannot hold; then the row passes the policy's WITH CHECK, then
  the column constraints, then the unique indexes, then the foreign keys. Rows that a
  policy's USING hides from an UPDATE, DELETE or SELECT are skipped; that is not an error.
  An UPDATE builds its new values when it writes a row, so its errors need a row to write.
  A policy for UPDATE without WITH CHECK applies its USING to the new row as well.
\<close>

definition claims_insert :: "auth \<Rightarrow> claim \<Rightarrow> database \<Rightarrow> pg_error + database" where
  "claims_insert a c db =
     (if \<not> pg_storable (claim_text c) then Inl InvalidText
      else if \<not> claims_insert_check a c then Inl RlsViolation
      else if \<not> pg_length (claim_text c) \<le> 300 then Inl CheckViolation
      else if claim_id c \<in> set (map claim_id (claims db)) then Inl UniqueViolation
      else if claim_author_id c \<notin> set (users db) then Inl ForeignKeyViolation
      else Inr (db\<lparr>claims := claims db @ [c]\<rparr>))"

text \<open>\<open>UPDATE claims SET text = new_text WHERE id = cid\<close>, as the update policy admits it.\<close>

definition claims_update_text :: "auth \<Rightarrow> uuid \<Rightarrow> js_string \<Rightarrow> database \<Rightarrow> pg_error + database" where
  "claims_update_text a cid new_text db =
     (if list_ex (\<lambda>c. claim_id c = cid \<and> claims_update_using a c) (claims db)
         \<and> \<not> pg_storable new_text
      then Inl InvalidText
      else if list_ex (\<lambda>c. claim_id c = cid \<and> claims_update_using a c) (claims db)
         \<and> \<not> pg_length new_text \<le> 300
      then Inl CheckViolation
      else Inr (db\<lparr>claims :=
             map (\<lambda>c. if claim_id c = cid \<and> claims_update_using a c
                      then c\<lparr>claim_text := new_text\<rparr> else c) (claims db)\<rparr>))"

text \<open>
  \<open>DELETE FROM claims WHERE id = cid\<close>. The foreign keys carry the deletion on:
  \<open>replies.parent_claim_id\<close>, \<open>threads.reply_id\<close> and \<open>messages.thread_id\<close> are
  all ON DELETE CASCADE, and the cascade is not subject to the policies.
\<close>

definition claims_delete :: "auth \<Rightarrow> uuid \<Rightarrow> database \<Rightarrow> database" where
  "claims_delete a cid db =
     (let gone_claims = map claim_id
            (filter (\<lambda>c. claim_id c = cid \<and> claims_delete_using a c) (claims db));
          gone_replies = map reply_id
            (filter (\<lambda>r. reply_parent_claim_id r \<in> set gone_claims) (replies db));
          gone_threads = map thread_id
            (filter (\<lambda>t. thread_reply_id t \<in> set gone_replies) (threads db))
      in db\<lparr>claims := filter (\<lambda>c. claim_id c \<notin> set gone_claims) (claims db),
            replies := filter (\<lambda>r. reply_parent_claim_id r \<notin> set gone_claims) (replies db),
            threads := filter (\<lambda>t. thread_reply_id t \<notin> set gone_replies) (threads db),
            messages := filter (\<lambda>m. message_thread_id m \<notin> set gone_threads) (messages db)\<rparr>)"

text \<open>
  The trigger function \<open>handle_new_reply\<close>, run AFTER INSERT on \<open>replies\<close> with the
  new row. It is SECURITY DEFINER, so no policy applies inside it. \<open>tid\<close> is the value
  \<open>uuid_generate_v4()\<close> gives the thread's \<open>id\<close>, \<open>now\<close> the value of \<open>NOW()\<close>.
  A NULL owner fails the NOT NULL column before the conflict on \<open>reply_id\<close> is looked at.
\<close>

definition handle_new_reply :: "reply \<Rightarrow> uuid \<Rightarrow> timestamptz \<Rightarrow> database \<Rightarrow> pg_error + database" where
  "handle_new_reply new tid now db =
     (let v_claim_owner_id = map_option claim_author_id
            (find (\<lambda>c. claim_id c = reply_parent_claim_id new) (claims db))
      in case v_claim_owner_id of
           None \<Rightarrow> Inl NotNullViolation
         | Some owner \<Rightarrow>
             if list_ex (\<lambda>t. thread_reply_id t = reply_id new) (threads db) then Inr db
             else if tid \<in> set (map thread_id (threads db)) then Inl UniqueViolation
             else if reply_id new \<notin> set (map reply_id (replies db))
                     \<or> owner \<notin> set (users db) \<or> reply_author_id new \<notin> set (users db)
             then Inl ForeignKeyViolation
             else Inr (db\<lparr>threads := threads db @
                    [\<lparr>thread_id = tid, thread_reply_id = reply_id new,
                      thread_claim_owner_id = owner,
                      thread_reply_author_id = reply_author_id new,
                      thread_created_at = now\<rparr>]\<rparr>))"

text \<open>
  \<open>INSERT INTO replies\<close> with the trigger \<open>on_reply_created\<close>: the row is inserted,
  then the trigger runs on the tables that hold it; an error of the trigger aborts the
  statement, row included.
\<close>

definition replies_insert :: "auth \<Rightarrow> reply \<Rightarrow> uuid \<Rightarrow> database \<Rightarrow> pg_error + database" where
  "replies_insert a r tid db =
     (if \<not> pg_storable (reply_text r) then Inl InvalidText
      else if \<not> replies_insert_check a r then Inl RlsViolation
      else if reply_id r \<in> set (map reply_id (replies db)) then Inl UniqueViolation
      else if reply_parent_claim_id r \<notin> set (map claim_id (claims db))
              \<or> reply_author_id r \<notin> set (users db)
      then Inl ForeignKeyViolation
      else handle_new_reply r tid (reply_created_at r) (db\<lparr>replies := replies db @ [r]\<rparr>))"

text \<open>
  The two bodies the application sends to \<open>UPDATE replies\<close>: \<open>{status}\<close> and
  \<open>{status, rejection_reason}\<close>, the reason a text or null.
\<close>

datatype reply_patch = StatusOnly reply_status | StatusAndReason reply_status "js_string option"

fun apply_patch :: "reply_patch \<Rightarrow> reply \<Rightarrow> reply" where
  "apply_patch (StatusOnly s) r = r\<lparr>reply_status := s\<rparr>"
| "apply_patch (StatusAndReason s reason) r
     = r\<lparr>reply_status := s, reply_rejection_reason := reason\<rparr>"

fun patch_storable :: "reply_patch \<Rightarrow> bool" where
  "patch_storable (StatusOnly s) = True"
| "patch_storable (StatusAndReason s reason)
     = (case reason of None \<Rightarrow> True | Some t \<Rightarrow> pg_storable t)"

text \<open>\<open>UPDATE replies SET ... WHERE id = rid\<close> with the body \<open>patch\<close>.\<close>

definition replies_update_by_id ::
  "auth \<Rightarrow> uuid \<Rightarrow> reply_patch \<Rightarrow> database \<Rightarrow> pg_error + database" where
  "replies_update_by_id a rid patch db =
     (if list_ex (\<lambda>r. reply_id r = rid \<and> replies_update_using db a r) (replies db)
         \<and> \<not> patch_storable patch
      then Inl InvalidText
      else Inr (db\<lparr>replies :=
             map (\<lambda>r. if reply_id r = rid \<and> replies_update_using db a r
                      then apply_patch patch r else r) (replies db)\<rparr>))"





definition messages_insert :: "auth \<Rightarrow> message \<Rightarrow> database \<Rightarrow> pg_error + database" where
  "messages_insert a m db =
     (if \<not> pg_storable (message_body m) then Inl InvalidText
      else if \<not> messages_insert_check db a m then Inl RlsViolation
      else if message_id m \<in> set (map message_id (messages db)) then Inl UniqueViolation
      else if message_thread_id m \<notin> set (map thread_id (threads db))
              \<or> message_sender_id m \<notin> set (users db)
      then Inl ForeignKeyViolation
      else Inr (db\<lparr>messages := messages db @ [m]\<rparr>))"

section \<open>The pages and their handlers\<close>

text \<open>
  What a form handler leaves on the screen: an error text (\<open>setError\<close>, \<open>alert\<close>),
  either the handler's own or the store's message, a redirect to the login page, or the
  success path.
\<close>

datatype notice = Shown string | Store pg_error

datatype 'a form_result = FormError notice | ToLogin | Done 'a

text \<open>
  \<open>handleSubmit\<close> of the new-claim page. \<open>user\<close> is what \<open>supabase.auth.getUser()\<close>
  returns, and the insert is sent with that user's token; \<open>new_id\<close> and \<open>now\<close> are the
  column defaults \<open>uuid_generate_v4()\<close> and \<open>NOW()\<close>.
\<close>

definition handleSubmit ::
  "js_string \<Rightarrow> claim_type \<Rightarrow> auth \<Rightarrow> uuid \<Rightarrow> timestamptz \<Rightarrow> database
     \<Rightarrow> uuid form_result \<times> database" where
  "handleSubmit text claimType user new_id now db =
     (if length text > 300
      then (FormError (Shown ''Claim must be 300 characters or less''), db)
      else if length (trim text) = 0
      then (FormError (Shown ''Claim cannot be empty''), db)
      else case user of
             None \<Rightarrow> (ToLogin, db)
           | Some uid \<Rightarrow>
               (case claims_insert (Some uid)
                       \<lparr>claim_id = new_id, claim_text = trim text, claim_type = claimType,
                        claim_author_id = uid, claim_created_at = now\<rparr> db of
                  Inl e \<Rightarrow> (FormError (Store e), db)
                | Inr db' \<Rightarrow> (Done new_id, db')))"

text \<open>
  \<open>handleReplySubmit\<close> of the reply section. The insert names four columns; \<open>status\<close>
  and \<open>rejection_reason\<close> take their defaults \<open>'pending'\<close> and NULL.
\<close>

definition handleReplySubmit ::
  "uuid \<Rightarrow> js_string \<Rightarrow> stance_type \<Rightarrow> auth \<Rightarrow> uuid \<Rightarrow> uuid \<Rightarrow> timestamptz \<Rightarrow> database
     \<Rightarrow> unit form_result \<times> database" where
  "handleReplySubmit claimId replyText stance user new_id tid now db =
     (if length (trim replyText) = 0
      then (FormError (Shown ''Reply cannot be empty''), db)
      else case user of
             None \<Rightarrow> (ToLogin, db)
           | Some uid \<Rightarrow>
               (case replies_insert (Some uid)
                       \<lparr>reply_id = new_id, reply_parent_claim_id = claimId,
                        reply_text = trim replyText, reply_stance = stance,
                        reply_status = Pending, reply_rejection_reason = None,
                        reply_author_id = uid, reply_created_at = now\<rparr> tid db of
                  Inl e \<Rightarrow> (FormError (Store e), db)
                | Inr db' \<Rightarrow> (Done (), db')))"

text \<open>
  \<open>handleAcceptReply\<close> and \<open>handleRejectReply\<close>, sent with the browser's session. The
  first component is the \<open>error\<close> the update returns, which the handler alerts.
\<close>

definition handleAcceptReply :: "auth \<Rightarrow> uuid \<Rightarrow> database \<Rightarrow> pg_error option \<times> database" where
  "handleAcceptReply session replyId db =
     (case replies_update_by_id session replyId (StatusOnly Accepted) db of
        Inl e \<Rightarrow> (Some e, db)
      | Inr db' \<Rightarrow> (None, db'))"

definition handleRejectReply ::
  "auth \<Rightarrow> js_string \<Rightarrow> uuid \<Rightarrow> database \<Rightarrow> pg_error option \<times> database" where
  "handleRejectReply session rejectReason replyId db =
     (case replies_update_by_id session replyId
             (StatusAndReason Rejected
                (if trim rejectReason = [] then None else Some (trim rejectReason))) db of
        Inl e \<Rightarrow> (Some e, db)
      | Inr db' \<Rightarrow> (None, db'))"

text \<open>
  \<open>handleSendMessage\<close> of the thread view. The browser holds the session of the user the
  page was rendered for, \<open>currentUserId\<close>. The result is the error alerted, if any,
  whether the input box was cleared, and the tables.
\<close>

definition handleSendMessage ::
  "js_string \<Rightarrow> uuid \<Rightarrow> uuid \<Rightarrow> uuid \<Rightarrow> timestamptz \<Rightarrow> database
     \<Rightarrow> pg_error option \<times> bool \<times> database" where
  "handleSendMessage newMessage threadId currentUserId new_id now db =
     (if length (trim newMessage) = 0 then (None, False, db)
      else case messages_insert (Some currentUserId)
                  \<lparr>message_id = new_id, message_thread_id = threadId,
                   message_sender_id = currentUserId, message_body = trim newMessage,
                   message_created_at = now\<rparr> db of
             Inl e \<Rightarrow> (Some e, False, db)
           | Inr db' \<Rightarrow> (None, True, db'))"




text \<open>
  The condition under which \<open>renderReplyGroup\<close> shows the link "Open Discussion", and
  the props the claim page computes for it from the session and the claim.
\<close>

definition show_discussion :: "bool \<Rightarrow> bool \<Rightarrow> uuid \<Rightarrow> reply \<Rightarrow> bool" where
  "show_discussion isClaimOwner isLoggedIn claimOwnerId reply =
     (isClaimOwner \<or> (isLoggedIn \<and> reply_author_id reply = claimOwnerId))"

definition ClaimPage_discussion :: "auth \<Rightarrow> claim \<Rightarrow> reply \<Rightarrow> bool" where
  "ClaimPage_discussion session claim reply =
     show_discussion (session = Some (claim_author_id claim)) (session \<noteq> None)
       (claim_author_id claim) reply"

text \<open>
  \<open>HomePage\<close>: the claims query ordered by \<open>created_at\<close> descending with limit 50, then
  one count query per claim. Claims with the same \<open>created_at\<close> come in insertion order.
  \<open>claims_ok\<close> says whether the claims query came back with rows; otherwise \<open>claims\<close> is
  null and \<open>claims || []\<close> is the empty list. \<open>count_ok cid\<close> says whether the count
  request for claim \<open>cid\<close> came back with a number; otherwise \<open>count\<close> is null and
  \<open>count || 0\<close> is 0.
\<close>

definition claims_query :: "bool \<Rightarrow> database \<Rightarrow> claim list option" where
  "claims_query ok db =
     (if ok then Some (take 50 (sort_key (\<lambda>c. - int (claim_created_at c)) (claims db)))
      else None)"

definition replies_count :: "bool \<Rightarrow> uuid \<Rightarrow> database \<Rightarrow> nat option" where
  "replies_count ok cid db =
     (if ok then Some (length (filter (\<lambda>r. reply_parent_claim_id r = cid) (replies db)))
      else None)"

definition HomePage :: "bool \<Rightarrow> (uuid \<Rightarrow> bool) \<Rightarrow> database \<Rightarrow> (claim \<times> nat) list" where
  "HomePage claims_ok count_ok db =
     map (\<lambda>claim. (claim, case replies_count (count_ok (claim_id claim)) (claim_id claim) db of
                             None \<Rightarrow> 0 | Some n \<Rightarrow> n))
       (case claims_query claims_ok db of None \<Rightarrow> [] | Some rows \<Rightarrow> rows)"

section \<open>Referential integrity and sequences of decisions\<close>

text \<open>
  The foreign key \<open>threads.reply_id REFERENCES replies(id)\<close> as a property of the tables.
\<close>

definition threads_reference_replies :: "database \<Rightarrow> bool" where
  "threads_reference_replies db =
     list_all (\<lambda>t. thread_reply_id t \<in> set (map reply_id (replies db))) (threads db)"



section \<open>A small instance\<close>

text \<open>
  User 1 has posted the claim 10, user 2 has replied to it with reply 20, the trigger has
  made thread 30 for the two of them, and user 1 has sent one message. User 3 is a
  bystander.
\<close>

definition scenario_db :: database where
  "scenario_db =
     \<lparr>users = [1, 2, 3],
      claims = [\<lparr>claim_id = 10, claim_text = [0x58], claim_type = Fact,
                 claim_author_id = 1, claim_created_at = 100\<rparr>],
      replies = [\<lparr>reply_id = 20, reply_parent_claim_id = 10, reply_text = [0x59],
                  reply_stance = Contradicts, reply_status = Pending,
                  reply_rejection_reason = None, reply_author_id = 2,
                  reply_created_at = 101\<rparr>],
      threads = [\<lparr>thread_id = 30, thread_reply_id = 20, thread_claim_owner_id = 1,
                  thread_reply_author_id = 2, thread_created_at = 101\<rparr>],
      messages = [\<lparr>message_id = 40, message_thread_id = 30, message_sender_id = 1,
                   message_body = [0x68, 0x69], message_created_at = 102\<rparr>]\<rparr>"

section \<open>Facts about trimming and lengths\<close>

lemma pg_length_le: "pg_length s \<le> length s"
  by (induction s rule: pg_length.induct) auto

lemma dropWhile_all_iff: "(\<forall>x\<in>set (dropWhile P s). P x) \<longleftrightarrow> (\<forall>x\<in>set s. P x)"
  by (induction s) auto

lemma trim_Nil_iff: "trim s = [] \<longleftrightarrow> list_all is_white_space s"
  by (simp add: trim_def dropWhile_eq_Nil_conv list_all_iff dropWhile_all_iff)

lemma length_trim_le: "length (trim s) \<le> length s"
proof -
  have "length (dropWhile is_white_space (rev (dropWhile is_white_space s)))
          \<le> length (rev (dropWhile is_white_space s))"
    by (rule length_dropWhile_le)
  also have "\<dots> \<le> length s" by (simp add: length_dropWhile_le)
  finally show ?thesis by (simp add: trim_def)
qed

lemma trim_decomp:
  "\<exists>pre suf. s = pre @ trim s @ suf \<and> list_all is_white_space pre \<and> list_all is_white_space suf"
proof -
  let ?d = "dropWhile is_white_space s"
  let ?t = "takeWhile is_white_space s"
  let ?r = "rev ?d"
  have 1: "s = ?t @ ?d" by simp
  have 2: "?r = takeWhile is_white_space ?r @ dropWhile is_white_space ?r" by simp
  have "?d = rev ?r" by simp
  also have "\<dots> = rev (dropWhile is_white_space ?r) @ rev (takeWhile is_white_space ?r)"
    by (subst 2) (simp only: rev_append)
  finally have 3: "?d = trim s @ rev (takeWhile is_white_space ?r)" by (simp add: trim_def)
  have "s = ?t @ trim s @ rev (takeWhile is_white_space ?r)"
    using 1 3 by metis
  moreover have "list_all is_white_space ?t" by (simp add: list_all_iff) (meson set_takeWhileD)
  moreover have "list_all is_white_space (rev (takeWhile is_white_space ?r))"
    by (simp add: list_all_iff) (meson set_takeWhileD)
  ultimately show ?thesis by blast
qed

lemma trim_unchanged:
  assumes "body \<noteq> []" and "\<not> is_white_space (hd body)" and "\<not> is_white_space (last body)"
  shows "trim body = body"
proof -
  have 1: "dropWhile is_white_space body = body"
    using assms(1,2) by (cases body) auto
  have "rev body \<noteq> []" and "\<not> is_white_space (hd (rev body))"
    using assms(1,3) by (simp_all add: hd_rev)
  then have "dropWhile is_white_space (rev body) = rev body"
    by (cases "rev body") auto
  with 1 show ?thesis by (simp add: trim_def)
qed

lemma pg_length_plain: "\<not> is_high_surrogate a \<Longrightarrow> pg_length (a # ys) = Suc (pg_length ys)"
  by (cases ys) auto

lemma pg_length_replicate:
  "\<not> is_high_surrogate a \<Longrightarrow> pg_length (replicate n a @ xs) = n + pg_length xs"
  by (induction n) (simp_all add: pg_length_plain)

lemma pg_storable_plain:
  "a \<noteq> 0 \<Longrightarrow> \<not> is_high_surrogate a \<Longrightarrow> \<not> is_low_surrogate a \<Longrightarrow>
     pg_storable (a # ys) = pg_storable ys"
  by (cases ys) auto

lemma pg_storable_replicate:
  "a \<noteq> 0 \<Longrightarrow> \<not> is_high_surrogate a \<Longrightarrow> \<not> is_low_surrogate a \<Longrightarrow>
     pg_storable (replicate n a @ xs) = pg_storable xs"
  by (induction n) (simp_all add: pg_storable_plain)

lemma letter_a:
  "(0x61 :: code_unit) \<noteq> 0" "\<not> is_high_surrogate 0x61" "\<not> is_low_surrogate 0x61"
  "\<not> is_white_space 0x61"
  by (simp_all add: is_high_surrogate_def is_low_surrogate_def is_white_space_def)

lemma trim_examples:
  "trim [0x20, 0x5A, 0x0A] = [0x5A]" "trim [0x09, 0x5A] = [0x5A]"
  "trim [0x20, 0x6F, 0x6B, 0x20] = [0x6F, 0x6B]" "trim [0x20, 0x6E, 0x6F, 0x20] = [0x6E, 0x6F]"
  "trim [0x20, 0x68, 0x69] = [0x68, 0x69]" "trim [0x5A] = [0x5A]" "trim [0xD83D] = [0xD83D]"
  "trim [0x20, 0x6F, 0x6B] = [0x6F, 0x6B]" "trim [0x6E, 0x6F] = [0x6E, 0x6F]"
  by (simp_all add: trim_def is_white_space_def)

lemma white_space_examples:
  "list_all is_white_space [0x20, 0x20]" "\<not> list_all is_white_space [0x20, 0x6E, 0x6F, 0x20]"
  "list_all is_white_space []" "\<not> list_all is_white_space [0x20, 0x6F, 0x6B, 0x20]"
  "\<not> list_all is_white_space [0x20, 0x68, 0x69]" "\<not> list_all is_white_space [0xD83D]"
  "\<not> list_all is_white_space [0x6E, 0x6F]"
  by (simp_all add: is_white_space_def)

lemma storable_examples:
  "pg_storable [0x5A]" "pg_storable [0x6F, 0x6B]" "pg_storable [0x6E, 0x6F]"
  "pg_storable [0x68, 0x69]" "\<not> pg_storable [0xD83D]" "pg_storable [0xD83D, 0xDE00]"
  by (simp_all add: is_high_surrogate_def is_low_surrogate_def)

section \<open>What a statement leaves untouched\<close>

lemma handle_new_reply_frame:
  "handle_new_reply new tid now db = Inr db' \<Longrightarrow>
     users db' = users db \<and> claims db' = claims db \<and> replies db' = replies db
     \<and> messages db' = messages db"
  by (auto simp: handle_new_reply_def Let_def split: option.splits if_splits)

lemma replies_insert_frame:
  "replies_insert a r tid db = Inr db' \<Longrightarrow>
     users db' = users db \<and> claims db' = claims db \<and> replies db' = replies db @ [r]
     \<and> messages db' = messages db"
  by (auto simp: replies_insert_def split: if_splits dest: handle_new_reply_frame)

section \<open>Validation of claim and reply text\<close>

lemma handleSubmit_too_long:
  "300 < length text \<Longrightarrow>
     handleSubmit text claimType user new_id now db
       = (FormError (Shown ''Claim must be 300 characters or less''), db)"
  by (simp add: handleSubmit_def)

lemma handleSubmit_blank:
  "list_all is_white_space text \<Longrightarrow>
     \<exists>e. handleSubmit text claimType user new_id now db = (FormError (Shown e), db)"
  by (simp add: handleSubmit_def trim_Nil_iff)

lemma handleSubmit_accepts:
  assumes "length text \<le> 300" and "\<not> list_all is_white_space text"
    and "pg_storable (trim text)"
    and "uid \<in> set (users db)" and "new_id \<notin> set (map claim_id (claims db))"
  shows "handleSubmit text claimType (Some uid) new_id now db
           = (Done new_id,
              db\<lparr>claims := claims db @
                   [\<lparr>claim_id = new_id, claim_text = trim text, claim_type = claimType,
                     claim_author_id = uid, claim_created_at = now\<rparr>]\<rparr>)"
proof -
  have "pg_length (trim text) \<le> 300"
    using pg_length_le [of "trim text"] length_trim_le [of "text"] assms(1) by linarith
  moreover have "trim text \<noteq> []" using assms(2) by (simp add: trim_Nil_iff)
  ultimately show ?thesis
    using assms(1,3,4,5)
    by (simp add: handleSubmit_def claims_insert_def claims_insert_check_def)
qed

lemma handleSubmit_unstorable:
  assumes "length text \<le> 300" and "\<not> list_all is_white_space text"
    and "\<not> pg_storable (trim text)"
  shows "handleSubmit text claimType (Some uid) new_id now db
           = (FormError (Store InvalidText), db)"
proof -
  have "trim text \<noteq> []" using assms(2) by (simp add: trim_Nil_iff)
  then show ?thesis
    using assms(1,3) by (simp add: handleSubmit_def claims_insert_def)
qed

lemma handleReplySubmit_blank:
  "list_all is_white_space replyText \<Longrightarrow>
     handleReplySubmit claimId replyText stance user new_id tid now db
       = (FormError (Shown ''Reply cannot be empty''), db)"
  by (simp add: handleReplySubmit_def trim_Nil_iff)

text \<open>
  Claim C4, as the code has it. \<open>handleSubmit\<close> measures a claim text by \<open>text.length\<close>,
  its number of UTF-16 code units. A text of more than 300 code units, so one of 301, is
  rejected with the handler's own error and without touching the tables. A text of at
  most 300 code units, so one of 300, that is not blank is inserted, trimmed, for a
  signed-in user known to the store when the generated id is fresh and the store can
  hold the trimmed text; when the store cannot hold it, the store's error is shown and
  nothing is inserted. A text that is empty or only white space is rejected with an error
  and no insert, for a claim and for a reply.
\<close>

theorem C4_text_validation:
  "(300 < length text \<longrightarrow>
      handleSubmit text claimType user new_id now db
        = (FormError (Shown ''Claim must be 300 characters or less''), db))
   \<and> (length text \<le> 300 \<and> \<not> list_all is_white_space text \<and> pg_storable (trim text)
        \<and> uid \<in> set (users db) \<and> new_id \<notin> set (map claim_id (claims db)) \<longrightarrow>
      handleSubmit text claimType (Some uid) new_id now db
        = (Done new_id,
           db\<lparr>claims := claims db @
                [\<lparr>claim_id = new_id, claim_text = trim text, claim_type = claimType,
                  claim_author_id = uid, claim_created_at = now\<rparr>]\<rparr>))
   \<and> (length text \<le> 300 \<and> \<not> list_all is_white_space text \<and> \<not> pg_storable (trim text) \<longrightarrow>
      handleSubmit text claimType (Some uid) new_id now db
        = (FormError (Store InvalidText), db))
   \<and> (list_all is_white_space text \<longrightarrow>
      (\<exists>e. handleSubmit text claimType user new_id now db = (FormError (Shown e), db)))
   \<and> (list_all is_white_space replyText \<longrightarrow>
      handleReplySubmit claimId replyText stance user new_id tid now db
        = (FormError (Shown ''Reply cannot be empty''), db))"
  by (intro conjI impI; (elim conjE)?;
      (rule handleSubmit_too_long handleSubmit_accepts handleSubmit_unstorable
            handleSubmit_blank handleReplySubmit_blank; assumption))

text \<open>
  Claim C4 as stated fails twice. A text of 300 characters, 299 letters "a" and one
  character outside the basic plane, has 301 code units and is rejected as too long. A
  text of 300 code units, 299 letters "a" and a high surrogate without its partner, passes
  the handler's checks and is refused by the store.
\<close>

theorem C4_text_of_length_300_refused:
  "pg_length (replicate 299 0x61 @ [0xD83D, 0xDE00]) = 300
   \<and> handleSubmit (replicate 299 0x61 @ [0xD83D, 0xDE00]) Fact (Some 1) 11 200 scenario_db
       = (FormError (Shown ''Claim must be 300 characters or less''), scenario_db)
   \<and> length (replicate 299 (0x61 :: code_unit) @ [0xD83D]) = 300
   \<and> handleSubmit (replicate 299 0x61 @ [0xD83D]) Fact (Some 1) 11 200 scenario_db
       = (FormError (Store InvalidText), scenario_db)"
proof -
  have 1: "pg_length (replicate 299 0x61 @ [0xD83D, 0xDE00]) = 300"
    by (simp add: pg_length_replicate letter_a is_high_surrogate_def is_low_surrogate_def)
  have 2: "handleSubmit (replicate 299 0x61 @ [0xD83D, 0xDE00]) Fact (Some 1) 11 200 scenario_db
       = (FormError (Shown ''Claim must be 300 characters or less''), scenario_db)"
    by (rule handleSubmit_too_long) simp
  let ?t = "replicate 299 (0x61 :: code_unit) @ [0xD83D]"
  have 3: "length ?t = 300" by simp
  have "trim ?t = ?t"
    by (rule trim_unchanged) (simp_all add: hd_append letter_a is_white_space_def)
  moreover have "\<not> pg_storable ?t"
    by (simp add: pg_storable_replicate letter_a is_high_surrogate_def)
  moreover have "\<not> list_all is_white_space ?t"
    by (simp add: is_white_space_def)
  ultimately have 4: "handleSubmit ?t Fact (Some 1) 11 200 scenario_db
       = (FormError (Store InvalidText), scenario_db)"
    using 3 by (intro handleSubmit_unstorable) simp_all
  show ?thesis using 1 2 3 4 by blast
qed

text \<open>
  Claim C4 at concrete inputs: 301 and 300 letters "a", a lone surrogate, and two blank
  texts.
\<close>

theorem C4_text_validation_witness:
  "fst (handleSubmit (replicate 301 0x61) Fact (Some 1) 11 200 scenario_db)
     = FormError (Shown ''Claim must be 300 characters or less'')
   \<and> handleSubmit (replicate 300 0x61) Fact (Some 1) 11 200 scenario_db
       = (Done 11,
          scenario_db\<lparr>claims := claims scenario_db @
             [\<lparr>claim_id = 11, claim_text = replicate 300 0x61, claim_type = Fact,
               claim_author_id = 1, claim_created_at = 200\<rparr>]\<rparr>)
   \<and> handleSubmit [0xD83D] Fact (Some 1) 11 200 scenario_db
       = (FormError (Store InvalidText), scenario_db)
   \<and> handleSubmit [0x20, 0x0A] Fact (Some 1) 11 200 scenario_db
       = (FormError (Shown ''Claim cannot be empty''), scenario_db)
   \<and> handleReplySubmit 10 [0x20, 0x09] Supports (Some 3) 21 31 200 scenario_db
       = (FormError (Shown ''Reply cannot be empty''), scenario_db)"
proof -
  let ?a = "replicate 300 (0x61 :: code_unit)"
  have ws: "list_all is_white_space [0x20, 0x0A]" "list_all is_white_space [0x20, 0x09]"
    by (simp_all add: is_white_space_def)
  have tr: "trim ?a = ?a"
    by (rule trim_unchanged) (simp_all add: letter_a)
  have st: "pg_storable ?a"
    using pg_storable_replicate [of "0x61" 300 "[]"] by (simp add: letter_a)
  have pre: "length ?a \<le> 300 \<and> \<not> list_all is_white_space ?a \<and> pg_storable (trim ?a)
             \<and> (1::nat) \<in> set (users scenario_db)
             \<and> (11::nat) \<notin> set (map claim_id (claims scenario_db))"
    using st by (simp add: tr list_all_iff letter_a scenario_db_def)
  have bad: "length [0xD83D :: code_unit] \<le> 300 \<and> \<not> list_all is_white_space [0xD83D]
             \<and> \<not> pg_storable (trim [0xD83D])"
    by (simp add: trim_examples is_white_space_def is_high_surrogate_def)
  have long: "300 < length (replicate 301 (0x61 :: code_unit))" by simp
  note inst1 = C4_text_validation [of "replicate 301 0x61" Fact "Some 1" 11 200 scenario_db]
  note inst2 = C4_text_validation [of ?a Fact "Some 1" 11 200 scenario_db 1]
  note inst3 = C4_text_validation [of "[0x20, 0x0A]" Fact "Some 1" 11 200 scenario_db]
  note inst4 = C4_text_validation [of _ _ "Some 3" 21 200 scenario_db _ "[0x20, 0x09]" 10
      Supports 31]
  note inst5 = C4_text_validation [of "[0xD83D]" Fact _ 11 200 scenario_db 1]
  have a: "fst (handleSubmit (replicate 301 0x61) Fact (Some 1) 11 200 scenario_db)
     = FormError (Shown ''Claim must be 300 characters or less'')"
    using inst1 [THEN conjunct1] long by simp
  have b: "handleSubmit ?a Fact (Some 1) 11 200 scenario_db
        = (Done 11,
           scenario_db\<lparr>claims := claims scenario_db @
                [\<lparr>claim_id = 11, claim_text = ?a, claim_type = Fact,
                  claim_author_id = 1, claim_created_at = 200\<rparr>]\<rparr>)"
    using inst2 [THEN conjunct2, THEN conjunct1, THEN mp, OF pre] by (simp only: tr)
  have c: "handleSubmit [0xD83D] Fact (Some 1) 11 200 scenario_db
       = (FormError (Store InvalidText), scenario_db)"
    using inst5 [THEN conjunct2, THEN conjunct2, THEN conjunct1, THEN mp, OF bad] .
  have d: "handleSubmit [0x20, 0x0A] Fact (Some 1) 11 200 scenario_db
       = (FormError (Shown ''Claim cannot be empty''), scenario_db)"
    using inst3 [THEN conjunct2, THEN conjunct2, THEN conjunct2, THEN conjunct1] ws(1)
    by (simp add: handleSubmit_def trim_Nil_iff)
  have e: "handleReplySubmit 10 [0x20, 0x09] Supports (Some 3) 21 31 200 scenario_db
       = (FormError (Shown ''Reply cannot be empty''), scenario_db)"
    using inst4 [THEN conjunct2, THEN conjunct2, THEN conjunct2, THEN conjunct2] ws(2)
    by blast
  show ?thesis using a b c d e by (intro conjI)
qed

section \<open>The link into the private discussion\<close>

text \<open>
  Claim C5. The reply's author, signed in and looking at the claim page, is not shown the
  link "Open Discussion" for their own reply when they are not the claim's owner: the
  condition compares the reply's author with the claim's owner, not with the viewer.
  Here user 2 views their reply 20 to claim 10 of user 1.
\<close>

theorem C5_reply_author_gets_no_discussion_link:
  "ClaimPage_discussion (Some 2)
     \<lparr>claim_id = 10, claim_text = [0x58], claim_type = Fact, claim_author_id = 1,
      claim_created_at = 100\<rparr>
     \<lparr>reply_id = 20, reply_parent_claim_id = 10, reply_text = [0x59],
      reply_stance = Contradicts, reply_status = Pending, reply_rejection_reason = None,
      reply_author_id = 2, reply_created_at = 101\<rparr> = False"
  by (simp add: ClaimPage_discussion_def show_discussion_def)

section \<open>The home page\<close>

lemma sorted_desc_query:
  "sorted_wrt (\<lambda>x y. f y \<le> (f x :: nat)) (sort_key (\<lambda>c. - int (f c)) xs)"
proof -
  have "sorted (map (\<lambda>c. - int (f c)) (sort_key (\<lambda>c. - int (f c)) xs))"
    by (rule sorted_sort_key)
  then have "sorted_wrt (\<lambda>x y. - int (f x) \<le> - int (f y)) (sort_key (\<lambda>c. - int (f c)) xs)"
    by (simp only: sorted_map)
  then show ?thesis by simp
qed

lemma take_drop_desc:
  assumes "sorted_wrt (\<lambda>x y. f y \<le> (f x :: nat)) ys"
    and "c \<in> set (drop n ys)" and "x \<in> set (take n ys)"
  shows "f c \<le> f x"
proof -
  have "sorted_wrt (\<lambda>x y. f y \<le> f x) (take n ys @ drop n ys)"
    using assms(1) by simp
  then have "\<forall>a\<in>set (take n ys). \<forall>b\<in>set (drop n ys). f b \<le> f a"
    unfolding sorted_wrt_append by blast
  then show ?thesis using assms(2,3) by blast
qed

lemma HomePage_rows:
  "map fst (HomePage True count_ok db)
     = take 50 (sort_key (\<lambda>c. - int (claim_created_at c)) (claims db))"
  "HomePage False count_ok db = []"
  by (simp_all add: HomePage_def claims_query_def comp_def)

text \<open>
  Claim C10. The home page lists at most 50 claims, newest first, each of them a claim
  of the table and none of them more often than the table has it, each with the number
  of replies whose \<open>parent_claim_id\<close> is its id, or 0 when the count did not come back.
  When the claims query comes back, the page lists \<open>min 50 n\<close> of the \<open>n\<close> claims, and
  the claims left out are the rest of the table, none of them newer than any claim
  listed. When the query does not come back, the page lists nothing.
\<close>

theorem C10_home_page_listing:
  "length (HomePage claims_ok count_ok db) \<le> 50
   \<and> (claims_ok \<longrightarrow> length (HomePage claims_ok count_ok db) = min 50 (length (claims db)))
   \<and> (\<not> claims_ok \<longrightarrow> HomePage claims_ok count_ok db = [])
   \<and> sorted_wrt (\<lambda>x y. claim_created_at (fst y) \<le> claim_created_at (fst x))
        (HomePage claims_ok count_ok db)
   \<and> set (map fst (HomePage claims_ok count_ok db)) \<subseteq> set (claims db)
   \<and> mset (map fst (HomePage claims_ok count_ok db)) \<subseteq># mset (claims db)
   \<and> (claims_ok \<longrightarrow>
        (\<forall>c \<in> set (claims db). c \<notin> set (map fst (HomePage claims_ok count_ok db)) \<longrightarrow>
          (\<forall>x \<in> set (HomePage claims_ok count_ok db).
             claim_created_at c \<le> claim_created_at (fst x))))
   \<and> (claims_ok \<longrightarrow>
        (\<exists>rest. mset (claims db) = mset (map fst (HomePage claims_ok count_ok db)) + mset rest
           \<and> (\<forall>c \<in> set rest. \<forall>x \<in> set (HomePage claims_ok count_ok db).
                 claim_created_at c \<le> claim_created_at (fst x))))
   \<and> (\<forall>x \<in> set (HomePage claims_ok count_ok db).
        snd x = (if count_ok (claim_id (fst x))
                 then length (filter (\<lambda>r. reply_parent_claim_id r = claim_id (fst x)) (replies db))
                 else 0))"
proof (cases claims_ok)
  case False
  then show ?thesis by (simp add: HomePage_rows)
next
  case True
  let ?L = "HomePage claims_ok count_ok db"
  let ?S = "sort_key (\<lambda>c. - int (claim_created_at c)) (claims db)"
  have fst_eq: "map fst ?L = take 50 ?S"
    using True by (simp add: HomePage_rows)
  have desc: "sorted_wrt (\<lambda>x y. claim_created_at y \<le> claim_created_at x) ?S"
    by (rule sorted_desc_query)
  have split: "mset (claims db) = mset (take 50 ?S) + mset (drop 50 ?S)"
  proof -
    have "mset (take 50 ?S) + mset (drop 50 ?S) = mset (take 50 ?S @ drop 50 ?S)"
      by (simp only: mset_append)
    also have "\<dots> = mset ?S" by (simp only: append_take_drop_id)
    also have "\<dots> = mset (claims db)" by simp
    finally show ?thesis by simp
  qed
  have in_top: "fst x \<in> set (take 50 ?S)" if "x \<in> set ?L" for x
  proof -
    have "fst x \<in> set (map fst ?L)" using that by simp
    then show ?thesis by (simp only: fst_eq)
  qed
  have len: "length ?L = min 50 (length (claims db))"
  proof -
    have "length (map fst ?L) = min 50 (length (claims db))"
      by (simp only: fst_eq) simp
    then show ?thesis by simp
  qed
  have srt: "sorted_wrt (\<lambda>x y. claim_created_at (fst y) \<le> claim_created_at (fst x)) ?L"
  proof -
    have "sorted_wrt (\<lambda>x y. claim_created_at y \<le> claim_created_at x) (map fst ?L)"
      unfolding fst_eq using desc by (rule sorted_wrt_take)
    then show ?thesis by (simp only: sorted_wrt_map)
  qed
  have sub: "set (map fst ?L) \<subseteq> set (claims db)"
  proof -
    have "set (take 50 ?S) \<subseteq> set ?S" by (rule set_take_subset)
    then show ?thesis unfolding fst_eq by simp
  qed
  have msub: "mset (map fst ?L) \<subseteq># mset (claims db)"
    unfolding fst_eq split by (rule mset_subset_eq_add_left)
  have rest: "claim_created_at c \<le> claim_created_at (fst x)"
    if "c \<in> set (drop 50 ?S)" and "x \<in> set ?L" for c x
    using desc that(1) in_top [OF that(2)] by (rule take_drop_desc)
  have recent: "\<forall>c \<in> set (claims db). c \<notin> set (map fst ?L) \<longrightarrow>
          (\<forall>x \<in> set ?L. claim_created_at c \<le> claim_created_at (fst x))"
  proof (intro ballI impI)
    fix c x
    assume c: "c \<in> set (claims db)" "c \<notin> set (map fst ?L)" and x: "x \<in> set ?L"
    have "c \<in> set ?S" using c(1) by simp
    then have "c \<in> set (take 50 ?S @ drop 50 ?S)" by (simp only: append_take_drop_id)
    then have "c \<in> set (take 50 ?S) \<or> c \<in> set (drop 50 ?S)" by (simp only: set_append Un_iff)
    moreover have "c \<notin> set (take 50 ?S)" using c(2) unfolding fst_eq .
    ultimately have "c \<in> set (drop 50 ?S)" by blast
    then show "claim_created_at c \<le> claim_created_at (fst x)" using x by (rule rest)
  qed
  have exact: "\<exists>rest. mset (claims db) = mset (map fst ?L) + mset rest
           \<and> (\<forall>c \<in> set rest. \<forall>x \<in> set ?L. claim_created_at c \<le> claim_created_at (fst x))"
  proof (intro exI [of _ "drop 50 ?S"] conjI ballI)
    show "mset (claims db) = mset (map fst ?L) + mset (drop 50 ?S)"
      unfolding fst_eq by (rule split)
  next
    fix c x
    assume "c \<in> set (drop 50 ?S)" and "x \<in> set ?L"
    then show "claim_created_at c \<le> claim_created_at (fst x)" by (rule rest)
  qed
  have cnt: "\<forall>x \<in> set ?L.
        snd x = (if count_ok (claim_id (fst x))
                 then length (filter (\<lambda>r. reply_parent_claim_id r = claim_id (fst x)) (replies db))
                 else 0)"
    unfolding HomePage_def replies_count_def by (rule ballI) (auto split: if_splits)
  have le: "length ?L \<le> 50" using len by simp
  show ?thesis
    using True by (intro conjI impI le len srt sub msub recent exact cnt) simp_all
qed

text \<open>
  Claim C10 on the small instance, and on the same with a second, newer claim 11: one
  claim listed with its one reply counted, then two claims listed, and none when the
  claims query fails.
\<close>

theorem C10_home_page_listing_witness:
  "length (HomePage True (\<lambda>_. True) scenario_db) = 1
   \<and> snd (hd (HomePage True (\<lambda>_. True) scenario_db)) = 1
   \<and> snd (hd (HomePage True (\<lambda>_. False) scenario_db)) = 0
   \<and> length (HomePage True (\<lambda>_. True)
         (scenario_db\<lparr>claims := claims scenario_db @
            [\<lparr>claim_id = 11, claim_text = [0x5A], claim_type = Value, claim_author_id = 2,
              claim_created_at = 150\<rparr>]\<rparr>)) = 2
   \<and> sorted_wrt (\<lambda>x y. claim_created_at (fst y) \<le> claim_created_at (fst x))
       (HomePage True (\<lambda>_. True)
         (scenario_db\<lparr>claims := claims scenario_db @
            [\<lparr>claim_id = 11, claim_text = [0x5A], claim_type = Value, claim_author_id = 2,
              claim_created_at = 150\<rparr>]\<rparr>))
   \<and> HomePage False (\<lambda>_. True) scenario_db = []"
proof -
  let ?db2 = "scenario_db\<lparr>claims := claims scenario_db @
            [\<lparr>claim_id = 11, claim_text = [0x5A], claim_type = Value, claim_author_id = 2,
              claim_created_at = 150\<rparr>]\<rparr>"
  note a = C10_home_page_listing [of True "\<lambda>_. True" scenario_db]
  note b = C10_home_page_listing [of True "\<lambda>_. False" scenario_db]
  note c = C10_home_page_listing [of True "\<lambda>_. True" ?db2]
  note d = C10_home_page_listing [of False "\<lambda>_. True" scenario_db]
  have n1: "length (claims scenario_db) = 1" and n2: "length (claims ?db2) = 2"
    by (simp_all add: scenario_db_def)
  have 1: "length (HomePage True (\<lambda>_. True) scenario_db) = 1"
    using a [THEN conjunct2, THEN conjunct1] n1 by simp
  have 4: "length (HomePage True (\<lambda>_. True) ?db2) = 2"
    using c [THEN conjunct2, THEN conjunct1] n2 by simp
  have 5: "sorted_wrt (\<lambda>x y. claim_created_at (fst y) \<le> claim_created_at (fst x))
       (HomePage True (\<lambda>_. True) ?db2)"
    using c [THEN conjunct2, THEN conjunct2, THEN conjunct2, THEN conjunct1] .
  have 6: "HomePage False (\<lambda>_. True) scenario_db = []"
    using d [THEN conjunct2, THEN conjunct2, THEN conjunct1] by simp
  have 2: "snd (hd (HomePage True (\<lambda>_. True) scenario_db)) = 1"
    by (simp add: HomePage_def claims_query_def replies_count_def scenario_db_def)
  have 3: "snd (hd (HomePage True (\<lambda>_. False) scenario_db)) = 0"
    using b by (simp add: HomePage_def claims_query_def replies_count_def scenario_db_def)
  show ?thesis using 1 2 3 4 5 6 by (intro conjI)
qed

section \<open>What the handlers store\<close>

lemma handleSubmit_Done:
  "handleSubmit text claimType user new_id now db = (Done k, db') \<Longrightarrow>
     \<exists>uid. user = Some uid \<and> k = new_id
       \<and> db' = db\<lparr>claims := claims db @
                  [\<lparr>claim_id = new_id, claim_text = trim text, claim_type = claimType,
                    claim_author_id = uid, claim_created_at = now\<rparr>]\<rparr>"
  by (auto simp: handleSubmit_def claims_insert_def split: if_splits option.splits sum.splits)

lemma handleReplySubmit_Done:
  "handleReplySubmit claimId replyText stance user new_id tid now db = (Done (), db') \<Longrightarrow>
     \<exists>uid. user = Some uid
       \<and> replies_insert (Some uid)
            \<lparr>reply_id = new_id, reply_parent_claim_id = claimId,
             reply_text = trim replyText, reply_stance = stance,
             reply_status = Pending, reply_rejection_reason = None,
             reply_author_id = uid, reply_created_at = now\<rparr> tid db = Inr db'"
  by (auto simp: handleReplySubmit_def split: if_splits option.splits sum.splits)

lemma handleSendMessage_sent:
  "handleSendMessage newMessage threadId currentUserId new_id now db = (None, True, db') \<Longrightarrow>
     db' = db\<lparr>messages := messages db @
               [\<lparr>message_id = new_id, message_thread_id = threadId,
                 message_sender_id = currentUserId, message_body = trim newMessage,
                 message_created_at = now\<rparr>]\<rparr>"
  by (auto simp: handleSendMessage_def messages_insert_def split: if_splits sum.splits)

lemma reject_patch_storable:
  "patch_storable (StatusAndReason Rejected (if trim s = [] then None else Some (trim s)))
     = pg_storable (trim s)"
  by simp

lemma handleAcceptReply_eq:
  "handleAcceptReply session replyId db
     = (None, db\<lparr>replies :=
                 map (\<lambda>r. if reply_id r = replyId \<and> replies_update_using db session r
                          then r\<lparr>reply_status := Accepted\<rparr> else r) (replies db)\<rparr>)"
  by (simp add: handleAcceptReply_def replies_update_by_id_def)

lemma handleRejectReply_stores:
  "pg_storable (trim rejectReason) \<Longrightarrow>
     handleRejectReply session rejectReason replyId db
       = (None, db\<lparr>replies :=
                   map (\<lambda>r. if reply_id r = replyId \<and> replies_update_using db session r
                            then r\<lparr>reply_status := Rejected,
                                   reply_rejection_reason :=
                                     (if list_all is_white_space rejectReason then None
                                      else Some (trim rejectReason))\<rparr>
                            else r) (replies db)\<rparr>)"
  by (simp add: handleRejectReply_def replies_update_by_id_def trim_Nil_iff)

lemma handleRejectReply_refused:
  assumes "r \<in> set (replies db)" and "reply_id r = replyId"
    and "replies_update_using db session r" and "\<not> pg_storable (trim rejectReason)"
  shows "handleRejectReply session rejectReason replyId db = (Some InvalidText, db)"
proof -
  have "list_ex (\<lambda>r. reply_id r = replyId \<and> replies_update_using db session r) (replies db)"
    using assms(1,2,3) by (auto simp: list_ex_iff)
  moreover have "trim rejectReason \<noteq> []" using assms(4) by auto
  ultimately show ?thesis
    using assms(4) by (simp add: handleRejectReply_def replies_update_by_id_def)
qed


lemma handleRejectReply_rows:
  "list_all2 (\<lambda>r r'. r' = r \<or>
        r' = r\<lparr>reply_status := Rejected,
               reply_rejection_reason :=
                 (if list_all is_white_space rejectReason then None
                  else Some (trim rejectReason))\<rparr>)
     (replies db) (replies (snd (handleRejectReply session rejectReason replyId db)))"
  by (simp add: handleRejectReply_def replies_update_by_id_def list_all2_map2 trim_Nil_iff
        list_all2_same)

lemma handleRejectReply_hit:
  assumes "pg_storable (trim rejectReason)"
    and "r \<in> set (replies db)" and "reply_id r = replyId"
    and "replies_update_using db session r"
  shows "r\<lparr>reply_status := Rejected,
           reply_rejection_reason :=
             (if list_all is_white_space rejectReason then None
              else Some (trim rejectReason))\<rparr>
         \<in> set (replies (snd (handleRejectReply session rejectReason replyId db)))"
  using assms(2,3,4) by (force simp: handleRejectReply_stores [OF assms(1)])

text \<open>
  Claim C9. Whatever a handler stores is the trimmed input. A claim that \<open>handleSubmit\<close>
  inserts has the text \<open>trim text\<close>; a reply that \<open>handleReplySubmit\<close> inserts has
  the text \<open>trim replyText\<close>; a message that \<open>handleSendMessage\<close> inserts has the body
  \<open>trim newMessage\<close>. \<open>handleRejectReply\<close> leaves every reply row as it was or sets its
  rejection reason to the trimmed reason, NULL when the reason trims to the empty string.
  When the store can hold the trimmed reason, it does the latter to each row with the
  given id that the update policy admits; when it cannot, and there is such a row, the
  handler gets the store's error and nothing is stored.
\<close>

theorem C9_stored_text_is_trimmed:
  "(handleSubmit text claimType user new_id now db = (Done k, db') \<longrightarrow>
      (\<exists>c. claims db' = claims db @ [c] \<and> claim_text c = trim text))
   \<and> (handleReplySubmit claimId replyText stance user new_id tid now db = (Done (), db') \<longrightarrow>
      (\<exists>r. replies db' = replies db @ [r] \<and> reply_text r = trim replyText))
   \<and> (handleSendMessage newMessage threadId currentUserId new_id now db = (None, True, db') \<longrightarrow>
      (\<exists>m. messages db' = messages db @ [m] \<and> message_body m = trim newMessage))
   \<and> list_all2 (\<lambda>r r'. r' = r \<or>
        r' = r\<lparr>reply_status := Rejected,
               reply_rejection_reason :=
                 (if list_all is_white_space rejectReason then None
                  else Some (trim rejectReason))\<rparr>)
        (replies db) (replies (snd (handleRejectReply session rejectReason replyId db)))
   \<and> (pg_storable (trim rejectReason) \<longrightarrow>
        (\<forall>r \<in> set (replies db). reply_id r = replyId \<and> replies_update_using db session r \<longrightarrow>
          r\<lparr>reply_status := Rejected,
            reply_rejection_reason :=
              (if list_all is_white_space rejectReason then None
               else Some (trim rejectReason))\<rparr>
          \<in> set (replies (snd (handleRejectReply session rejectReason replyId db)))))
   \<and> (\<not> pg_storable (trim rejectReason) \<longrightarrow>
        (\<forall>r \<in> set (replies db). reply_id r = replyId \<and> replies_update_using db session r \<longrightarrow>
          handleRejectReply session rejectReason replyId db = (Some InvalidText, db)))"
proof (intro conjI impI ballI)
  assume "handleSubmit text claimType user new_id now db = (Done k, db')"
  from handleSubmit_Done [OF this]
  show "\<exists>c. claims db' = claims db @ [c] \<and> claim_text c = trim text" by auto
next
  assume "handleReplySubmit claimId replyText stance user new_id tid now db = (Done (), db')"
  from handleReplySubmit_Done [OF this] obtain uid where
    "replies_insert (Some uid)
            \<lparr>reply_id = new_id, reply_parent_claim_id = claimId,
             reply_text = trim replyText, reply_stance = stance,
             reply_status = Pending, reply_rejection_reason = None,
             reply_author_id = uid, reply_created_at = now\<rparr> tid db = Inr db'" by blast
  from replies_insert_frame [OF this]
  show "\<exists>r. replies db' = replies db @ [r] \<and> reply_text r = trim replyText" by simp
next
  assume "handleSendMessage newMessage threadId currentUserId new_id now db = (None, True, db')"
  from handleSendMessage_sent [OF this]
  show "\<exists>m. messages db' = messages db @ [m] \<and> message_body m = trim newMessage" by simp
next
  show "list_all2 (\<lambda>r r'. r' = r \<or>
        r' = r\<lparr>reply_status := Rejected,
               reply_rejection_reason :=
                 (if list_all is_white_space rejectReason then None
                  else Some (trim rejectReason))\<rparr>)
        (replies db) (replies (snd (handleRejectReply session rejectReason replyId db)))"
    by (rule handleRejectReply_rows)
next
  fix r
  assume "pg_storable (trim rejectReason)" and "r \<in> set (replies db)"
    and "reply_id r = replyId \<and> replies_update_using db session r"
  then show "r\<lparr>reply_status := Rejected,
          reply_rejection_reason :=
            (if list_all is_white_space rejectReason then None
             else Some (trim rejectReason))\<rparr>
        \<in> set (replies (snd (handleRejectReply session rejectReason replyId db)))"
    using handleRejectReply_hit by blast
next
  fix r
  assume "\<not> pg_storable (trim rejectReason)" and "r \<in> set (replies db)"
    and "reply_id r = replyId \<and> replies_update_using db session r"
  then show "handleRejectReply session rejectReason replyId db = (Some InvalidText, db)"
    using handleRejectReply_refused by blast
qed

text \<open>
  Claim C9 on the small instance: a claim "Z" between a space and a line feed, a reply "Z"
  after a tab, a message " ok ", a rejection with the reason " no ", one with a blank reason
  and one with a lone surrogate.
\<close>

theorem C9_stored_text_is_trimmed_witness:
  "claim_text (last (claims (snd (handleSubmit [0x20, 0x5A, 0x0A] Value (Some 3) 11 200 scenario_db))))
     = [0x5A]
   \<and> reply_text (last (replies (snd (handleReplySubmit 10 [0x09, 0x5A] Supports (Some 3) 21 31 200 scenario_db))))
     = [0x5A]
   \<and> message_body (last (messages (snd (snd (handleSendMessage [0x20, 0x6F, 0x6B, 0x20] 30 2 41 200 scenario_db)))))
     = [0x6F, 0x6B]
   \<and> map reply_rejection_reason
        (replies (snd (handleRejectReply (Some 1) [0x20, 0x6E, 0x6F, 0x20] 20 scenario_db)))
     = [Some [0x6E, 0x6F]]
   \<and> map reply_rejection_reason
        (replies (snd (handleRejectReply (Some 1) [0x20, 0x20] 20 scenario_db)))
     = [None]
   \<and> handleRejectReply (Some 1) [0xD83D] 20 scenario_db = (Some InvalidText, scenario_db)"
proof -
  let ?c = "handleSubmit [0x20, 0x5A, 0x0A] Value (Some 3) 11 200 scenario_db"
  let ?r = "handleReplySubmit 10 [0x09, 0x5A] Supports (Some 3) 21 31 200 scenario_db"
  let ?m = "handleSendMessage [0x20, 0x6F, 0x6B, 0x20] 30 2 41 200 scenario_db"
  have c: "?c = (Done 11, snd ?c)"
    by (simp add: handleSubmit_def claims_insert_def claims_insert_check_def trim_examples
          is_high_surrogate_def is_low_surrogate_def scenario_db_def)
  have r: "?r = (Done (), snd ?r)"
    by (simp add: handleReplySubmit_def replies_insert_def replies_insert_check_def
          handle_new_reply_def trim_examples is_high_surrogate_def is_low_surrogate_def
          scenario_db_def)
  have m: "?m = (None, True, snd (snd ?m))"
    by (simp add: handleSendMessage_def messages_insert_def messages_insert_check_def
          messages_select_using_def threads_select_using_def trim_examples
          is_high_surrogate_def is_low_surrogate_def scenario_db_def)
  have 1: "claim_text (last (claims (snd ?c))) = [0x5A]"
  proof -
    from C9_stored_text_is_trimmed [of "[0x20, 0x5A, 0x0A]" Value "Some 3" 11 200 scenario_db
        11 "snd ?c", THEN conjunct1, THEN mp, OF c]
    obtain x where "claims (snd ?c) = claims scenario_db @ [x]"
      and "claim_text x = trim [0x20, 0x5A, 0x0A]" by blast
    then show ?thesis by (simp add: trim_examples)
  qed
  have 2: "reply_text (last (replies (snd ?r))) = [0x5A]"
  proof -
    from C9_stored_text_is_trimmed [of _ _ "Some 3" 21 200 scenario_db _ "snd ?r" 10
        "[0x09, 0x5A]" Supports 31, THEN conjunct2, THEN conjunct1, THEN mp, OF r]
    obtain x where "replies (snd ?r) = replies scenario_db @ [x]"
      and "reply_text x = trim [0x09, 0x5A]" by blast
    then show ?thesis by (simp add: trim_examples)
  qed
  have 3: "message_body (last (messages (snd (snd ?m)))) = [0x6F, 0x6B]"
  proof -
    from C9_stored_text_is_trimmed [of _ _ _ 41 200 scenario_db _ "snd (snd ?m)" _ _ _ _
        "[0x20, 0x6F, 0x6B, 0x20]" 30 2, THEN conjunct2, THEN conjunct2, THEN conjunct1,
        THEN mp, OF m]
    obtain x where "messages (snd (snd ?m)) = messages scenario_db @ [x]"
      and "message_body x = trim [0x20, 0x6F, 0x6B, 0x20]" by blast
    then show ?thesis by (simp add: trim_examples)
  qed
  have len: "length (replies (snd (handleRejectReply (Some 1) rr 20 scenario_db))) = 1" for rr
    using list_all2_lengthD [OF handleRejectReply_rows [of rr scenario_db "Some 1" 20]]
    by (simp add: scenario_db_def)
  have rows: "replies (snd (handleRejectReply (Some 1) rr 20 scenario_db))
                = [hd (replies (snd (handleRejectReply (Some 1) rr 20 scenario_db)))]" for rr
    using len [of rr]
    by (cases "replies (snd (handleRejectReply (Some 1) rr 20 scenario_db))") simp_all
  have old: "set (replies scenario_db) = {hd (replies scenario_db)}"
    by (simp add: scenario_db_def)
  have hit: "reply_id (hd (replies scenario_db)) = 20
             \<and> replies_update_using scenario_db (Some 1) (hd (replies scenario_db))"
    by (simp add: scenario_db_def replies_update_using_def)
  have stored: "reply_rejection_reason
                  (hd (replies (snd (handleRejectReply (Some 1) rr 20 scenario_db))))
                = (if list_all is_white_space rr then None else Some (trim rr))"
    if ok: "pg_storable (trim rr)" for rr
  proof -
    from C9_stored_text_is_trimmed [of _ _ _ _ _ scenario_db _ _ _ _ _ _ _ _ _
        rr "Some 1" 20, THEN conjunct2, THEN conjunct2, THEN conjunct2, THEN conjunct2,
        THEN conjunct1, THEN mp, OF ok]
    have "\<forall>r\<in>set (replies scenario_db).
            reply_id r = 20 \<and> replies_update_using scenario_db (Some 1) r \<longrightarrow>
            r\<lparr>reply_status := Rejected,
              reply_rejection_reason :=
                (if list_all is_white_space rr then None else Some (trim rr))\<rparr>
            \<in> set (replies (snd (handleRejectReply (Some 1) rr 20 scenario_db)))" .
    with old hit have "(hd (replies scenario_db))\<lparr>reply_status := Rejected,
              reply_rejection_reason :=
                (if list_all is_white_space rr then None else Some (trim rr))\<rparr>
            \<in> set (replies (snd (handleRejectReply (Some 1) rr 20 scenario_db)))"
      by blast
    then have "(hd (replies scenario_db))\<lparr>reply_status := Rejected,
              reply_rejection_reason :=
                (if list_all is_white_space rr then None else Some (trim rr))\<rparr>
            = hd (replies (snd (handleRejectReply (Some 1) rr 20 scenario_db)))"
      by (subst (asm) rows) simp
    from arg_cong [OF this, of reply_rejection_reason] show ?thesis by simp
  qed
  have one: "map reply_rejection_reason (replies (snd (handleRejectReply (Some 1) rr 20 scenario_db)))
        = [reply_rejection_reason
             (hd (replies (snd (handleRejectReply (Some 1) rr 20 scenario_db))))]" for rr
    by (subst rows) (simp only: list.map)
  have ok4: "pg_storable (trim [0x20, 0x6E, 0x6F, 0x20])"
    by (simp only: trim_examples storable_examples)
  have ok5: "pg_storable (trim [0x20, 0x20])"
    using white_space_examples(1) by (simp add: trim_Nil_iff [THEN iffD2])
  have 4: "map reply_rejection_reason
        (replies (snd (handleRejectReply (Some 1) [0x20, 0x6E, 0x6F, 0x20] 20 scenario_db)))
     = [Some [0x6E, 0x6F]]"
    by (simp only: one stored [OF ok4] white_space_examples trim_examples if_False)
  have 5: "map reply_rejection_reason
        (replies (snd (handleRejectReply (Some 1) [0x20, 0x20] 20 scenario_db)))
     = [None]"
    by (simp only: one stored [OF ok5] white_space_examples if_True)
  have bad: "\<not> pg_storable (trim [0xD83D])"
    by (simp only: trim_examples storable_examples not_False_eq_True)
  have 6: "handleRejectReply (Some 1) [0xD83D] 20 scenario_db = (Some InvalidText, scenario_db)"
    using C9_stored_text_is_trimmed [of _ _ _ _ _ scenario_db _ _ _ _ _ _ _ _ _
        "[0xD83D]" "Some 1" 20, THEN conjunct2, THEN conjunct2, THEN conjunct2,
        THEN conjunct2, THEN conjunct2, THEN mp, OF bad] old hit
    by blast
  show ?thesis using 1 2 3 4 5 6 by (intro conjI)
qed

section \<open>Sending a message\<close>

lemma messages_select_using_iff:
  "messages_select_using db a m \<longleftrightarrow>
     (\<exists>t \<in> set (threads db). thread_id t = message_thread_id m
        \<and> (a = Some (thread_claim_owner_id t) \<or> a = Some (thread_reply_author_id t)))"
  by (auto simp: messages_select_using_def threads_select_using_def list_ex_iff)


lemma handleSendMessage_blank:
  "list_all is_white_space body \<Longrightarrow>
     handleSendMessage body t a new_id now db = (None, False, db)"
  by (simp add: handleSendMessage_def trim_Nil_iff)

lemma messages_insert_participant:
  assumes "pg_storable (message_body m)"
    and "th \<in> set (threads db)" and "thread_id th = message_thread_id m"
    and "message_sender_id m = thread_claim_owner_id th
         \<or> message_sender_id m = thread_reply_author_id th"
    and "message_sender_id m \<in> set (users db)"
    and "message_id m \<notin> set (map message_id (messages db))"
  shows "messages_insert (Some (message_sender_id m)) m db
           = Inr (db\<lparr>messages := messages db @ [m]\<rparr>)"
proof -
  have "messages_select_using db (Some (message_sender_id m)) m"
    unfolding messages_select_using_iff using assms(2,3,4) by blast
  then show ?thesis
    using assms image_eqI [of "message_thread_id m" thread_id th "set (threads db)"]
    by (auto simp: messages_insert_def messages_insert_check_def)
qed

lemma handleSendMessage_unstorable:
  assumes "\<not> list_all is_white_space body" and "\<not> pg_storable (trim body)"
  shows "handleSendMessage body t a new_id now db = (Some InvalidText, False, db)"
  using assms by (simp add: handleSendMessage_def messages_insert_def trim_Nil_iff)

lemma handleSendMessage_participant:
  assumes "\<not> list_all is_white_space body" and "pg_storable (trim body)"
    and "th \<in> set (threads db)" and "thread_id th = t"
    and "a = thread_claim_owner_id th \<or> a = thread_reply_author_id th"
    and "a \<in> set (users db)" and "new_id \<notin> set (map message_id (messages db))"
  shows "handleSendMessage body t a new_id now db
           = (None, True,
              db\<lparr>messages := messages db @
                   [\<lparr>message_id = new_id, message_thread_id = t, message_sender_id = a,
                     message_body = trim body, message_created_at = now\<rparr>]\<rparr>)"
proof -
  let ?m = "\<lparr>message_id = new_id, message_thread_id = t, message_sender_id = a,
             message_body = trim body, message_created_at = now\<rparr>"
  have "messages_insert (Some (message_sender_id ?m)) ?m db
          = Inr (db\<lparr>messages := messages db @ [?m]\<rparr>)"
    by (rule messages_insert_participant [of _ th]) (use assms in simp_all)
  then show ?thesis using assms(1) by (simp add: handleSendMessage_def trim_Nil_iff)
qed

text \<open>
  Claim C6, as the code has it. \<open>handleSendMessage\<close> with a body that is empty or only
  white space returns at once: nothing is inserted, and no error is reported either.
  With any other body whose trimmed text the store can hold, sent by a participant of the
  thread who is known to the store and with a fresh generated id, it appends one message
  whose \<open>sender_id\<close> is the sender and whose body is the trimmed input. With a body
  whose trimmed text the store cannot hold, it alerts the store's error and inserts
  nothing.
\<close>

theorem C6_send_message:
  "(list_all is_white_space body \<longrightarrow>
      handleSendMessage body t a new_id now db = (None, False, db))
   \<and> (\<not> list_all is_white_space body \<and> pg_storable (trim body)
        \<and> th \<in> set (threads db) \<and> thread_id th = t
        \<and> (a = thread_claim_owner_id th \<or> a = thread_reply_author_id th)
        \<and> a \<in> set (users db) \<and> new_id \<notin> set (map message_id (messages db)) \<longrightarrow>
      handleSendMessage body t a new_id now db
        = (None, True,
           db\<lparr>messages := messages db @
                [\<lparr>message_id = new_id, message_thread_id = t, message_sender_id = a,
                  message_body = trim body, message_created_at = now\<rparr>]\<rparr>))
   \<and> (\<not> list_all is_white_space body \<and> \<not> pg_storable (trim body) \<longrightarrow>
      handleSendMessage body t a new_id now db = (Some InvalidText, False, db))"
  by (intro conjI impI; (elim conjE)?;
      (rule handleSendMessage_blank handleSendMessage_participant
            handleSendMessage_unstorable; assumption))

text \<open>
  Claim C6 as stated fails twice: user 2, a participant of thread 30, sends the empty body,
  and the handler reports no error (its first component is the alerted error); user 2
  sends a body that is not empty, a high surrogate without its partner, and no message is
  appended.
\<close>

theorem C6_empty_body_reports_no_error:
  "handleSendMessage [] 30 2 41 200 scenario_db = (None, False, scenario_db)
   \<and> handleSendMessage [0xD83D] 30 2 41 200 scenario_db
       = (Some InvalidText, False, scenario_db)"
  by (simp add: handleSendMessage_def messages_insert_def trim_def is_white_space_def
        is_high_surrogate_def)

text \<open>
  Claim C6 on the small instance: user 2 sends a blank body, then " ok ", then a lone
  surrogate.
\<close>

theorem C6_send_message_witness:
  "handleSendMessage [0x20, 0x20] 30 2 41 200 scenario_db = (None, False, scenario_db)
   \<and> handleSendMessage [0x20, 0x6F, 0x6B, 0x20] 30 2 41 200 scenario_db
       = (None, True,
          scenario_db\<lparr>messages := messages scenario_db @
             [\<lparr>message_id = 41, message_thread_id = 30, message_sender_id = 2,
               message_body = [0x6F, 0x6B], message_created_at = 200\<rparr>]\<rparr>)
   \<and> handleSendMessage [0xD83D] 30 3 41 200 scenario_db
       = (Some InvalidText, False, scenario_db)"
proof -
  have bad: "\<not> list_all is_white_space [0xD83D] \<and> \<not> pg_storable (trim [0xD83D])"
    by (simp add: trim_examples is_white_space_def is_high_surrogate_def)
  from C6_send_message [of "[0xD83D]" 30 3 41 200 scenario_db, THEN conjunct2,
      THEN conjunct2, THEN mp, OF bad]
  have 3: "handleSendMessage [0xD83D] 30 3 41 200 scenario_db
       = (Some InvalidText, False, scenario_db)" .
  have pre: "\<not> list_all is_white_space [0x20, 0x6F, 0x6B, 0x20]
        \<and> pg_storable (trim [0x20, 0x6F, 0x6B, 0x20])
        \<and> hd (threads scenario_db) \<in> set (threads scenario_db)
        \<and> thread_id (hd (threads scenario_db)) = 30
        \<and> (2 = thread_claim_owner_id (hd (threads scenario_db))
            \<or> 2 = thread_reply_author_id (hd (threads scenario_db)))
        \<and> 2 \<in> set (users scenario_db) \<and> 41 \<notin> set (map message_id (messages scenario_db))"
    using white_space_examples(4)
    by (simp add: trim_examples is_high_surrogate_def is_low_surrogate_def scenario_db_def)
  from C6_send_message [of "[0x20, 0x20]" 30 2 41 200 scenario_db, THEN conjunct1, THEN mp,
      OF white_space_examples(1)]
  have 1: "handleSendMessage [0x20, 0x20] 30 2 41 200 scenario_db = (None, False, scenario_db)" .
  from C6_send_message [of "[0x20, 0x6F, 0x6B, 0x20]" 30 2 41 200 scenario_db
      "hd (threads scenario_db)", THEN conjunct2, THEN conjunct1, THEN mp, OF pre]
  have 2: "handleSendMessage [0x20, 0x6F, 0x6B, 0x20] 30 2 41 200 scenario_db
       = (None, True,
          scenario_db\<lparr>messages := messages scenario_db @
             [\<lparr>message_id = 41, message_thread_id = 30, message_sender_id = 2,
               message_body = trim [0x20, 0x6F, 0x6B, 0x20], message_created_at = 200\<rparr>]\<rparr>)" .
  show ?thesis using 1 2 3 by (simp only: trim_examples)
qed

section \<open>Reading a thread back\<close>









section \<open>Who is kept out of a thread\<close>











section \<open>Provisioning the thread of a reply\<close>

lemma handle_new_reply_provisions:
  assumes "handle_new_reply new tid now db = Inr db'"
    and "\<not> list_ex (\<lambda>t. thread_reply_id t = reply_id new) (threads db)"
  shows "\<exists>c. find (\<lambda>c. claim_id c = reply_parent_claim_id new) (claims db) = Some c
           \<and> threads db' = threads db @
                [\<lparr>thread_id = tid, thread_reply_id = reply_id new,
                  thread_claim_owner_id = claim_author_id c,
                  thread_reply_author_id = reply_author_id new,
                  thread_created_at = now\<rparr>]"
  using assms
  by (auto simp: handle_new_reply_def Let_def split: option.splits if_splits)

lemma handle_new_reply_again:
  assumes "find (\<lambda>c. claim_id c = reply_parent_claim_id new) (claims db) = Some c"
    and "list_ex (\<lambda>t. thread_reply_id t = reply_id new) (threads db)"
  shows "handle_new_reply new tid now db = Inr db"
  using assms by (simp add: handle_new_reply_def)

lemma replies_insert_threads:
  assumes "replies_insert a r tid db = Inr db'"
  shows "threads db' = threads db
         \<or> (\<exists>t. threads db' = threads db @ [t] \<and> thread_reply_id t = reply_id r)"
  using assms
  by (auto simp: replies_insert_def handle_new_reply_def Let_def
           split: if_splits option.splits)

lemma replies_insert_fresh:
  "replies_insert a r tid db = Inr db' \<Longrightarrow> reply_id r \<notin> set (map reply_id (replies db))"
  by (auto simp: replies_insert_def split: if_splits)

lemma handleReplySubmit_failed:
  "handleReplySubmit claimId replyText stance user new_id tid now db = (res, db2)
     \<and> res \<noteq> Done () \<Longrightarrow> db2 = db"
  by (auto simp: handleReplySubmit_def split: if_splits option.splits sum.splits)

text \<open>
  Claim C1. Let the tables satisfy the foreign key of \<open>threads.reply_id\<close>, and let the
  insert of a reply \<open>r\<close> succeed. Then the parent claim exists; the statement has added
  \<open>r\<close> and one thread \<open>t\<close> together; \<open>t\<close> is the only thread with \<open>reply_id = r.id\<close>;
  its \<open>claim_owner_id\<close> is the parent claim's author and its \<open>reply_author_id\<close> is
  \<open>r\<close>'s author; the foreign key still holds. Running the trigger function again for
  \<open>r\<close> returns the same tables and no error. A submission that does not end in success
  leaves the tables as they were, so there is no reply without its thread. And after any
  further successful insert of a reply, \<open>t\<close> is still the only thread of \<open>r\<close>.
\<close>

theorem C1_one_thread_per_reply:
  assumes "threads_reference_replies db"
    and "replies_insert a r tid db = Inr db'"
  shows "\<exists>c t. find (\<lambda>c. claim_id c = reply_parent_claim_id r) (claims db) = Some c
           \<and> replies db' = replies db @ [r]
           \<and> threads db' = threads db @ [t]
           \<and> filter (\<lambda>x. thread_reply_id x = reply_id r) (threads db') = [t]
           \<and> thread_claim_owner_id t = claim_author_id c
           \<and> thread_reply_author_id t = reply_author_id r
           \<and> threads_reference_replies db'
           \<and> (\<forall>tid2 now2. handle_new_reply r tid2 now2 db' = Inr db')
           \<and> (\<forall>claimId replyText stance user new_id tid3 now3 res db2.
                handleReplySubmit claimId replyText stance user new_id tid3 now3 db = (res, db2)
                \<and> res \<noteq> Done () \<longrightarrow> db2 = db)
           \<and> (\<forall>a2 r2 tid2 db''. replies_insert a2 r2 tid2 db' = Inr db'' \<longrightarrow>
                filter (\<lambda>x. thread_reply_id x = reply_id r) (threads db'') = [t])"
proof -
  let ?db1 = "db\<lparr>replies := replies db @ [r]\<rparr>"
  have fresh: "reply_id r \<notin> set (map reply_id (replies db))"
    using assms(2) by (rule replies_insert_fresh)
  have trig: "handle_new_reply r tid (reply_created_at r) ?db1 = Inr db'"
    using assms(2) by (auto simp: replies_insert_def split: if_splits)
  have none: "filter (\<lambda>x. thread_reply_id x = reply_id r) (threads db) = []"
  proof -
    have "thread_reply_id x \<noteq> reply_id r" if "x \<in> set (threads db)" for x
    proof -
      have "thread_reply_id x \<in> set (map reply_id (replies db))"
        using assms(1) that by (simp add: threads_reference_replies_def list_all_iff)
      with fresh show ?thesis by metis
    qed
    then show ?thesis by (simp add: filter_empty_conv)
  qed
  then have noconf: "\<not> list_ex (\<lambda>t. thread_reply_id t = reply_id r) (threads ?db1)"
    by (auto simp: list_ex_iff filter_empty_conv)
  from handle_new_reply_provisions [OF trig noconf] obtain c where
    c: "find (\<lambda>c. claim_id c = reply_parent_claim_id r) (claims db) = Some c"
    and thr: "threads db' = threads db @
                [\<lparr>thread_id = tid, thread_reply_id = reply_id r,
                  thread_claim_owner_id = claim_author_id c,
                  thread_reply_author_id = reply_author_id r,
                  thread_created_at = reply_created_at r\<rparr>]"
    by auto
  let ?t = "\<lparr>thread_id = tid, thread_reply_id = reply_id r,
                  thread_claim_owner_id = claim_author_id c,
                  thread_reply_author_id = reply_author_id r,
                  thread_created_at = reply_created_at r\<rparr>"
  have fr: "users db' = users db" "claims db' = claims db" "replies db' = replies db @ [r]"
    using replies_insert_frame [OF assms(2)] by simp_all
  have one: "filter (\<lambda>x. thread_reply_id x = reply_id r) (threads db') = [?t]"
    using none by (simp add: thr)
  have inv: "threads_reference_replies db'"
    using assms(1) by (auto simp: threads_reference_replies_def thr fr list_all_iff)
  have again: "handle_new_reply r tid2 now2 db' = Inr db'" for tid2 now2
    by (rule handle_new_reply_again [of _ _ c]) (simp_all add: fr c thr list_ex_iff)
  have retry: "filter (\<lambda>x. thread_reply_id x = reply_id r) (threads db'') = [?t]"
    if "replies_insert a2 r2 tid2 db' = Inr db''" for a2 r2 tid2 db''
  proof -
    have "reply_id r2 \<noteq> reply_id r"
      using replies_insert_fresh [OF that] by (auto simp: fr)
    then show ?thesis
      using replies_insert_threads [OF that] one by auto
  qed
  have atomic: "db2 = db"
    if "handleReplySubmit claimId replyText stance user new_id tid3 now3 db = (res, db2)
        \<and> res \<noteq> Done ()" for claimId replyText stance user new_id tid3 now3 res db2
    using that by (rule handleReplySubmit_failed)
  have own: "thread_claim_owner_id ?t = claim_author_id c"
    and aut: "thread_reply_author_id ?t = reply_author_id r" by simp_all
  have again': "\<forall>tid2 now2. handle_new_reply r tid2 now2 db' = Inr db'"
    using again by blast
  have atomic': "\<forall>claimId replyText stance user new_id tid3 now3 res db2.
                handleReplySubmit claimId replyText stance user new_id tid3 now3 db = (res, db2)
                \<and> res \<noteq> Done () \<longrightarrow> db2 = db"
    using atomic by blast
  have retry': "\<forall>a2 r2 tid2 db''. replies_insert a2 r2 tid2 db' = Inr db'' \<longrightarrow>
                filter (\<lambda>x. thread_reply_id x = reply_id r) (threads db'') = [?t]"
    using retry by blast
  show ?thesis
    by (rule exI [of _ c], rule exI [of _ ?t])
       (intro conjI c fr(3) thr one own aut inv again' atomic' retry')
qed

text \<open>
  Claim C1 on the small instance: user 3 replies "Z" to claim 10 of user 1, with the
  generated ids 21 for the reply and 31 for the thread.
\<close>

theorem C1_one_thread_per_reply_witness:
  "\<exists>t. filter (\<lambda>x. thread_reply_id x = 21)
          (threads (snd (handleReplySubmit 10 [0x5A] Supports (Some 3) 21 31 200 scenario_db)))
        = [t]
      \<and> thread_claim_owner_id t = 1 \<and> thread_reply_author_id t = 3"
proof -
  let ?r = "\<lparr>reply_id = 21, reply_parent_claim_id = 10, reply_text = trim [0x5A],
             reply_stance = Supports, reply_status = Pending, reply_rejection_reason = None,
             reply_author_id = 3, reply_created_at = 200\<rparr>"
  let ?db' = "snd (handleReplySubmit 10 [0x5A] Supports (Some 3) 21 31 200 scenario_db)"
  have inv: "threads_reference_replies scenario_db"
    by (simp add: threads_reference_replies_def scenario_db_def)
  have tr: "trim [0x5A] = [0x5A]" by (simp add: trim_def is_white_space_def)
  have ins: "replies_insert (Some 3) ?r 31 scenario_db = Inr ?db'"
    by (simp add: handleReplySubmit_def replies_insert_def replies_insert_check_def
          handle_new_reply_def tr is_high_surrogate_def is_low_surrogate_def scenario_db_def)
  have parent: "find (\<lambda>c. claim_id c = reply_parent_claim_id ?r) (claims scenario_db)
                  = Some (hd (claims scenario_db))"
    by (simp add: scenario_db_def)
  have owner: "claim_author_id (hd (claims scenario_db)) = 1"
    by (simp add: scenario_db_def)
  from C1_one_thread_per_reply [OF inv ins] obtain c t where
    c: "find (\<lambda>c. claim_id c = reply_parent_claim_id ?r) (claims scenario_db) = Some c"
    and one: "filter (\<lambda>x. thread_reply_id x = reply_id ?r) (threads ?db') = [t]"
    and own: "thread_claim_owner_id t = claim_author_id c"
    and aut: "thread_reply_author_id t = reply_author_id ?r"
    by blast
  from c parent have "c = hd (claims scenario_db)" by (simp only: option.inject)
  with own owner have "thread_claim_owner_id t = 1" by (simp only:)
  moreover from aut have "thread_reply_author_id t = 3" by simp
  moreover from one have "filter (\<lambda>x. thread_reply_id x = 21) (threads ?db') = [t]" by simp
  ultimately show ?thesis by blast
qed

section \<open>Accepting and rejecting a reply\<close>






lemma handlers_keep_claims:
  "claims (snd (handleAcceptReply session rid db)) = claims db"
  "claims (snd (handleRejectReply session reason rid db)) = claims db"
  by (simp_all add: handleAcceptReply_eq handleRejectReply_def replies_update_by_id_def
        split: sum.splits)






section \<open>Updating and deleting a claim\<close>

lemma claims_update_text_skips:
  assumes "\<forall>c\<in>set (claims db). claim_id c = cid \<longrightarrow> a \<noteq> Some (claim_author_id c)"
  shows "claims_update_text a cid new_text db = Inr db"
proof -
  have no: "\<not> list_ex (\<lambda>c. claim_id c = cid \<and> claims_update_using a c) (claims db)"
    using assms by (auto simp: list_ex_iff claims_update_using_def)
  have "map (\<lambda>c. if claim_id c = cid \<and> claims_update_using a c
                 then c\<lparr>claim_text := new_text\<rparr> else c) (claims db) = claims db"
    using assms by (intro map_idI) (auto simp: claims_update_using_def)
  then show ?thesis using no by (simp add: claims_update_text_def)
qed

lemma claims_delete_skips:
  assumes "\<forall>c\<in>set (claims db). claim_id c = cid \<longrightarrow> a \<noteq> Some (claim_author_id c)"
  shows "claims_delete a cid db = db"
proof -
  have "filter (\<lambda>c. claim_id c = cid \<and> claims_delete_using a c) (claims db) = []"
    using assms by (auto simp: filter_empty_conv claims_delete_using_def)
  then show ?thesis by (simp add: claims_delete_def)
qed

lemma claims_delete_by_author:
  assumes "filter (\<lambda>c. claim_id c = cid) (claims db) = [c]" and "a = Some (claim_author_id c)"
  shows "claims (claims_delete a cid db) = filter (\<lambda>c. claim_id c \<noteq> cid) (claims db)"
    and "replies (claims_delete a cid db)
           = filter (\<lambda>r. reply_parent_claim_id r \<noteq> cid) (replies db)"
    and "threads (claims_delete a cid db)
           = filter (\<lambda>t. thread_reply_id t \<notin> set (map reply_id
                          (filter (\<lambda>r. reply_parent_claim_id r = cid) (replies db))))
               (threads db)"
    and "messages (claims_delete a cid db)
           = filter (\<lambda>m. message_thread_id m \<notin> set (map thread_id
                          (filter (\<lambda>t. thread_reply_id t \<in> set (map reply_id
                             (filter (\<lambda>r. reply_parent_claim_id r = cid) (replies db))))
                             (threads db))))
               (messages db)"
    and "users (claims_delete a cid db) = users db"
proof -
  have "filter (\<lambda>c. claim_id c = cid \<and> claims_delete_using a c) (claims db)
          = filter (claims_delete_using a) (filter (\<lambda>c. claim_id c = cid) (claims db))"
    unfolding filter_filter by (intro filter_cong) auto
  also have "\<dots> = [c]" using assms(2) by (simp add: assms(1) claims_delete_using_def)
  finally have sel: "filter (\<lambda>c. claim_id c = cid \<and> claims_delete_using a c) (claims db) = [c]" .
  have "c \<in> set (filter (\<lambda>c. claim_id c = cid) (claims db))"
    by (simp add: assms(1))
  then have cid: "claim_id c = cid" by simp
  have gone: "set (map claim_id
                (filter (\<lambda>c. claim_id c = cid \<and> claims_delete_using a c) (claims db))) = {cid}"
    by (simp add: sel cid)
  show "claims (claims_delete a cid db) = filter (\<lambda>c. claim_id c \<noteq> cid) (claims db)"
    by (simp add: claims_delete_def Let_def gone del: set_map)
  show "replies (claims_delete a cid db)
           = filter (\<lambda>r. reply_parent_claim_id r \<noteq> cid) (replies db)"
    by (simp add: claims_delete_def Let_def gone del: set_map)
  show "threads (claims_delete a cid db)
           = filter (\<lambda>t. thread_reply_id t \<notin> set (map reply_id
                          (filter (\<lambda>r. reply_parent_claim_id r = cid) (replies db))))
               (threads db)"
    by (simp add: claims_delete_def Let_def gone del: set_map)
  show "messages (claims_delete a cid db)
           = filter (\<lambda>m. message_thread_id m \<notin> set (map thread_id
                          (filter (\<lambda>t. thread_reply_id t \<in> set (map reply_id
                             (filter (\<lambda>r. reply_parent_claim_id r = cid) (replies db))))
                             (threads db))))
               (messages db)"
    by (simp add: claims_delete_def Let_def gone del: set_map)
  show "users (claims_delete a cid db) = users db"
    by (simp add: claims_delete_def Let_def)
qed

lemma claims_update_text_unstorable:
  assumes "filter (\<lambda>c. claim_id c = cid) (claims db) = [c]" and "a = Some (claim_author_id c)"
    and "\<not> pg_storable new_text"
  shows "claims_update_text a cid new_text db = Inl InvalidText"
proof -
  have "c \<in> set (filter (\<lambda>c. claim_id c = cid) (claims db))" by (simp add: assms(1))
  then have "c \<in> set (claims db) \<and> claim_id c = cid" by simp
  then have "list_ex (\<lambda>c. claim_id c = cid \<and> claims_update_using a c) (claims db)"
    using assms(2) by (auto simp: list_ex_iff claims_update_using_def)
  then show ?thesis using assms(3) by (simp add: claims_update_text_def)
qed

lemma claims_update_text_by_author:
  assumes "filter (\<lambda>c. claim_id c = cid) (claims db) = [c]" and "a = Some (claim_author_id c)"
    and "pg_storable new_text" and "pg_length new_text \<le> 300"
  shows "claims_update_text a cid new_text db
           = Inr (db\<lparr>claims := map (\<lambda>x. if claim_id x = cid then x\<lparr>claim_text := new_text\<rparr>
                                        else x) (claims db)\<rparr>)"
proof -
  have "claims_update_using a x" if "x \<in> set (claims db)" and "claim_id x = cid" for x
  proof -
    have "x \<in> set (filter (\<lambda>c. claim_id c = cid) (claims db))" using that by simp
    then have "x = c" by (simp add: assms(1))
    then show ?thesis by (simp add: claims_update_using_def assms(2))
  qed
  then have "map (\<lambda>c. if claim_id c = cid \<and> claims_update_using a c
                      then c\<lparr>claim_text := new_text\<rparr> else c) (claims db)
             = map (\<lambda>x. if claim_id x = cid then x\<lparr>claim_text := new_text\<rparr> else x) (claims db)"
    by (intro map_cong) auto
  then show ?thesis using assms(3,4) by (simp add: claims_update_text_def)
qed

lemma claims_delete_keeps_references:
  assumes "threads_reference_replies db"
  shows "threads_reference_replies (claims_delete a cid db)"
proof -
  let ?gc = "map claim_id (filter (\<lambda>c. claim_id c = cid \<and> claims_delete_using a c) (claims db))"
  let ?gr = "map reply_id (filter (\<lambda>r. reply_parent_claim_id r \<in> set ?gc) (replies db))"
  have "thread_reply_id t \<in> set (map reply_id
          (filter (\<lambda>r. reply_parent_claim_id r \<notin> set ?gc) (replies db)))"
    if t: "t \<in> set (threads db)" and keep: "thread_reply_id t \<notin> set ?gr" for t
  proof -
    from assms t obtain r where r: "r \<in> set (replies db)" "reply_id r = thread_reply_id t"
      by (auto simp: threads_reference_replies_def list_all_iff)
    have "reply_parent_claim_id r \<notin> set ?gc"
    proof
      assume "reply_parent_claim_id r \<in> set ?gc"
      with r(1) have "reply_id r \<in> set ?gr" by simp
      with keep r(2) show False by simp
    qed
    with r(1) have "r \<in> set (filter (\<lambda>r. reply_parent_claim_id r \<notin> set ?gc) (replies db))"
      by simp
    then have "reply_id r \<in> reply_id ` set (filter (\<lambda>r. reply_parent_claim_id r \<notin> set ?gc)
                                              (replies db))"
      by (rule imageI)
    then show ?thesis by (simp only: set_map r(2))
  qed
  then show ?thesis
    by (simp add: threads_reference_replies_def claims_delete_def Let_def list_all_iff
          del: set_map)
qed

lemma handlers_leave_claims:
  "\<exists>cs. claims (snd (handleSubmit text claimType user new_id now db)) = claims db @ cs"
  "claims (snd (handleReplySubmit claimId replyText stance user new_id tid now db)) = claims db"
  "claims (snd (handleAcceptReply session rid db)) = claims db"
  "claims (snd (handleRejectReply session reason rid db)) = claims db"
  "claims (snd (snd (handleSendMessage newMessage threadId currentUserId new_id now db)))
     = claims db"
proof -
  show "\<exists>cs. claims (snd (handleSubmit text claimType user new_id now db)) = claims db @ cs"
    by (auto simp: handleSubmit_def claims_insert_def split: option.splits sum.splits)
  show "claims (snd (handleReplySubmit claimId replyText stance user new_id tid now db)) = claims db"
    by (auto simp: handleReplySubmit_def split: option.splits sum.splits
             dest: replies_insert_frame)
  show "claims (snd (handleAcceptReply session rid db)) = claims db"
    by (rule handlers_keep_claims)
  show "claims (snd (handleRejectReply session reason rid db)) = claims db"
    by (rule handlers_keep_claims)
  show "claims (snd (snd (handleSendMessage newMessage threadId currentUserId new_id now db)))
     = claims db"
    by (auto simp: handleSendMessage_def messages_insert_def split: sum.splits)
qed

text \<open>
  Claim C8, as the code has it. For a caller who is not the author of the claim with a
  given id, an update of its text and a delete both leave the tables as they were. For
  its author, the update policy admits the update, which rewrites the text when the store
  can hold the new text and it passes the length check, and which fails when the store
  cannot hold it; and the delete removes the claim, the replies to it, the
  threads of those replies and the messages of those threads, and nothing else. A delete
  keeps the foreign key of \<open>threads.reply_id\<close>. No handler of the application changes
  or removes a stored claim: \<open>handleSubmit\<close> only appends, the others leave \<open>claims\<close>
  as it was.
\<close>

theorem C8_claim_update_and_delete:
  "((\<forall>c\<in>set (claims db). claim_id c = cid \<longrightarrow> a \<noteq> Some (claim_author_id c)) \<longrightarrow>
      claims_update_text a cid new_text db = Inr db \<and> claims_delete a cid db = db)
   \<and> (filter (\<lambda>c. claim_id c = cid) (claims db) = [c] \<and> a = Some (claim_author_id c) \<longrightarrow>
        (pg_storable new_text \<and> pg_length new_text \<le> 300 \<longrightarrow>
           claims_update_text a cid new_text db
             = Inr (db\<lparr>claims := map (\<lambda>x. if claim_id x = cid then x\<lparr>claim_text := new_text\<rparr>
                                          else x) (claims db)\<rparr>))
        \<and> (\<not> pg_storable new_text \<longrightarrow>
             claims_update_text a cid new_text db = Inl InvalidText)
        \<and> claims (claims_delete a cid db) = filter (\<lambda>c. claim_id c \<noteq> cid) (claims db)
        \<and> replies (claims_delete a cid db)
            = filter (\<lambda>r. reply_parent_claim_id r \<noteq> cid) (replies db)
        \<and> threads (claims_delete a cid db)
            = filter (\<lambda>t. thread_reply_id t \<notin> set (map reply_id
                           (filter (\<lambda>r. reply_parent_claim_id r = cid) (replies db))))
                (threads db)
        \<and> messages (claims_delete a cid db)
            = filter (\<lambda>m. message_thread_id m \<notin> set (map thread_id
                           (filter (\<lambda>t. thread_reply_id t \<in> set (map reply_id
                              (filter (\<lambda>r. reply_parent_claim_id r = cid) (replies db))))
                              (threads db))))
                (messages db))
   \<and> (threads_reference_replies db \<longrightarrow> threads_reference_replies (claims_delete a cid db))
   \<and> (\<exists>cs. claims (snd (handleSubmit text claimType user new_id now db)) = claims db @ cs)
   \<and> claims (snd (handleReplySubmit claimId replyText stance user new_id tid now db)) = claims db
   \<and> claims (snd (handleAcceptReply session rid db)) = claims db
   \<and> claims (snd (handleRejectReply session reason rid db)) = claims db
   \<and> claims (snd (snd (handleSendMessage newMessage threadId currentUserId new_id now db)))
       = claims db"
proof (intro conjI impI)
  assume h: "\<forall>c\<in>set (claims db). claim_id c = cid \<longrightarrow> a \<noteq> Some (claim_author_id c)"
  show "claims_update_text a cid new_text db = Inr db" by (rule claims_update_text_skips [OF h])
  show "claims_delete a cid db = db" by (rule claims_delete_skips [OF h])
next
  assume h: "filter (\<lambda>c. claim_id c = cid) (claims db) = [c] \<and> a = Some (claim_author_id c)"
  then have h1: "filter (\<lambda>c. claim_id c = cid) (claims db) = [c]"
    and h2: "a = Some (claim_author_id c)" by simp_all
  note del = claims_delete_by_author [OF h1 h2]
  show "claims (claims_delete a cid db) = filter (\<lambda>c. claim_id c \<noteq> cid) (claims db)"
    by (rule del(1))
  show "replies (claims_delete a cid db)
            = filter (\<lambda>r. reply_parent_claim_id r \<noteq> cid) (replies db)"
    by (rule del(2))
  show "threads (claims_delete a cid db)
            = filter (\<lambda>t. thread_reply_id t \<notin> set (map reply_id
                           (filter (\<lambda>r. reply_parent_claim_id r = cid) (replies db))))
                (threads db)"
    by (rule del(3))
  show "messages (claims_delete a cid db)
            = filter (\<lambda>m. message_thread_id m \<notin> set (map thread_id
                           (filter (\<lambda>t. thread_reply_id t \<in> set (map reply_id
                              (filter (\<lambda>r. reply_parent_claim_id r = cid) (replies db))))
                              (threads db))))
                (messages db)"
    by (rule del(4))
  {
    assume "pg_storable new_text \<and> pg_length new_text \<le> 300"
    then have "pg_storable new_text" and "pg_length new_text \<le> 300" by simp_all
    with h1 h2 show "claims_update_text a cid new_text db
             = Inr (db\<lparr>claims := map (\<lambda>x. if claim_id x = cid then x\<lparr>claim_text := new_text\<rparr>
                                          else x) (claims db)\<rparr>)"
      by (rule claims_update_text_by_author)
  }
  {
    assume "\<not> pg_storable new_text"
    with h1 h2 show "claims_update_text a cid new_text db = Inl InvalidText"
      by (rule claims_update_text_unstorable)
  }
next
  assume "threads_reference_replies db"
  then show "threads_reference_replies (claims_delete a cid db)"
    by (rule claims_delete_keeps_references)
qed (rule handlers_leave_claims)+

text \<open>
  Claim C8 as stated fails: user 1, the author of claim 10, rewrites its text from "X" to
  "Z" through the update policy.
\<close>

theorem C8_author_rewrites_claim_text:
  "claims_update_text (Some 1) 10 [0x5A] scenario_db
     = Inr (scenario_db\<lparr>claims :=
              [\<lparr>claim_id = 10, claim_text = [0x5A], claim_type = Fact, claim_author_id = 1,
                claim_created_at = 100\<rparr>]\<rparr>)"
  by (simp add: claims_update_text_def claims_update_using_def is_high_surrogate_def
        is_low_surrogate_def scenario_db_def)

text \<open>
  Claim C8 on the small instance: user 2 can neither update nor delete claim 10; user 1
  deletes it, and its reply, thread and message go with it.
\<close>

theorem C8_claim_update_and_delete_witness:
  "claims_update_text (Some 2) 10 [0x5A] scenario_db = Inr scenario_db
   \<and> claims_delete (Some 2) 10 scenario_db = scenario_db
   \<and> claims (claims_delete (Some 1) 10 scenario_db) = []
   \<and> replies (claims_delete (Some 1) 10 scenario_db) = []
   \<and> threads (claims_delete (Some 1) 10 scenario_db) = []
   \<and> messages (claims_delete (Some 1) 10 scenario_db) = []
   \<and> threads_reference_replies (claims_delete (Some 1) 10 scenario_db)
   \<and> claims_update_text (Some 1) 10 [0xD83D] scenario_db = Inl InvalidText
   \<and> claims_update_text (Some 1) 10 [0x5A] scenario_db
       = Inr (scenario_db\<lparr>claims :=
                map (\<lambda>x. if claim_id x = 10 then x\<lparr>claim_text := [0x5A]\<rparr> else x)
                  (claims scenario_db)\<rparr>)"
proof -
  have other: "\<forall>c\<in>set (claims scenario_db). claim_id c = 10 \<longrightarrow> Some 2 \<noteq> Some (claim_author_id c)"
    by (simp add: scenario_db_def)
  have own: "filter (\<lambda>c. claim_id c = 10) (claims scenario_db) = [hd (claims scenario_db)]
             \<and> Some 1 = Some (claim_author_id (hd (claims scenario_db)))"
    by (simp add: scenario_db_def)
  have inv: "threads_reference_replies scenario_db"
    by (simp add: threads_reference_replies_def scenario_db_def)
  note i2 = C8_claim_update_and_delete [of scenario_db 10 "Some 2" "[0x5A]"]
  note i1 = C8_claim_update_and_delete [of scenario_db 10 "Some 1" "[0x5A]"
      "hd (claims scenario_db)"]
  have 1: "claims_update_text (Some 2) 10 [0x5A] scenario_db = Inr scenario_db
           \<and> claims_delete (Some 2) 10 scenario_db = scenario_db"
    using i2 [THEN conjunct1] other by blast
  have 2: "claims (claims_delete (Some 1) 10 scenario_db)
             = filter (\<lambda>c. claim_id c \<noteq> 10) (claims scenario_db)
        \<and> replies (claims_delete (Some 1) 10 scenario_db)
            = filter (\<lambda>r. reply_parent_claim_id r \<noteq> 10) (replies scenario_db)
        \<and> threads (claims_delete (Some 1) 10 scenario_db)
            = filter (\<lambda>t. thread_reply_id t \<notin> set (map reply_id
                           (filter (\<lambda>r. reply_parent_claim_id r = 10) (replies scenario_db))))
                (threads scenario_db)
        \<and> messages (claims_delete (Some 1) 10 scenario_db)
            = filter (\<lambda>m. message_thread_id m \<notin> set (map thread_id
                           (filter (\<lambda>t. thread_reply_id t \<in> set (map reply_id
                              (filter (\<lambda>r. reply_parent_claim_id r = 10) (replies scenario_db))))
                              (threads scenario_db))))
                (messages scenario_db)"
    using i1 [THEN conjunct2, THEN conjunct1] own by blast
  have 3: "threads_reference_replies (claims_delete (Some 1) 10 scenario_db)"
    using i1 [THEN conjunct2, THEN conjunct2, THEN conjunct1] inv by blast
  have e: "filter (\<lambda>c. claim_id c \<noteq> 10) (claims scenario_db) = []"
    "filter (\<lambda>r. reply_parent_claim_id r \<noteq> 10) (replies scenario_db) = []"
    "filter (\<lambda>t. thread_reply_id t \<notin> set (map reply_id
                           (filter (\<lambda>r. reply_parent_claim_id r = 10) (replies scenario_db))))
                (threads scenario_db) = []"
    "filter (\<lambda>m. message_thread_id m \<notin> set (map thread_id
                           (filter (\<lambda>t. thread_reply_id t \<in> set (map reply_id
                              (filter (\<lambda>r. reply_parent_claim_id r = 10) (replies scenario_db))))
                              (threads scenario_db))))
                (messages scenario_db) = []"
    by (simp_all add: scenario_db_def)
  note i3 = C8_claim_update_and_delete [of scenario_db 10 "Some 1" "[0xD83D]"
      "hd (claims scenario_db)"]
  have bad: "\<not> pg_storable [0xD83D]" by (simp add: is_high_surrogate_def)
  have good: "pg_storable [0x5A] \<and> pg_length [0x5A] \<le> 300"
    by (simp add: is_high_surrogate_def is_low_surrogate_def)
  have 4: "claims_update_text (Some 1) 10 [0xD83D] scenario_db = Inl InvalidText"
    using i3 [THEN conjunct2, THEN conjunct1] own bad by blast
  have 5: "claims_update_text (Some 1) 10 [0x5A] scenario_db
       = Inr (scenario_db\<lparr>claims :=
                map (\<lambda>x. if claim_id x = 10 then x\<lparr>claim_text := [0x5A]\<rparr> else x)
                  (claims scenario_db)\<rparr>)"
    using i1 [THEN conjunct2, THEN conjunct1] own good by blast
  have 123: "claims_update_text (Some 2) 10 [0x5A] scenario_db = Inr scenario_db
   \<and> claims_delete (Some 2) 10 scenario_db = scenario_db
   \<and> claims (claims_delete (Some 1) 10 scenario_db) = []
   \<and> replies (claims_delete (Some 1) 10 scenario_db) = []
   \<and> threads (claims_delete (Some 1) 10 scenario_db) = []
   \<and> messages (claims_delete (Some 1) 10 scenario_db) = []
   \<and> threads_reference_replies (claims_delete (Some 1) 10 scenario_db)"
    using 1 2 3 by (simp only: e)
  show ?thesis using 123 4 5 by (intro conjI) simp_all
qed

end
